theory Spec2Isabelle
  imports Complex_Main
begin

section \<open>Slope and slope classes of a digital elevation model (prepare\_data.py)\<close>

text \<open>
  The function \<^verbatim>\<open>compute_slope_and_classes\<close> of \<^verbatim>\<open>src/prepare_data.py\<close>
  reads band 1 of a raster as a float32 array, derives a no-data mask, takes the two
  gradients with \<^verbatim>\<open>np.gradient\<close>, turns them into a slope in degrees, overwrites
  the masked cells with NaN, bins the slope with \<^verbatim>\<open>np.digitize\<close> and sets the
  masked cells of the class array to 0.

  The model takes what the raster supplies (the array, the \<^verbatim>\<open>nodata\<close> entry of
  the profile, the coefficients \<^verbatim>\<open>a\<close> and \<^verbatim>\<open>e\<close> of the affine transform) and
  returns the two arrays that are written. Printing and file access are left out. The two
  transform coefficients are Python floats; they are taken as real numbers.
\<close>

subsection \<open>Floating-point values\<close>

text \<open>
  A float32 value is NaN, one of the two infinities or a finite number. NaN propagates
  through every operation, and every ordered comparison with NaN is false.

  Rounding to float32 is modelled at the two ends of the range only. \<open>FLT_MAX\<close> is the
  largest finite float32, \<open>(2 - 2^-23) * 2^127\<close>. A magnitude of at least
  \<open>FLT_OVF = 2^128 - 2^103\<close>, half a unit in the last place above \<open>FLT_MAX\<close>, rounds to
  an infinity; a magnitude between \<open>FLT_MAX\<close> and \<open>FLT_OVF\<close> rounds to \<open>FLT_MAX\<close>; a
  magnitude of at most \<open>FLT_TINY = 2^-150\<close>, half the smallest subnormal, rounds to zero.
  In between a number is kept as the exact real: the rounding to 24 significant bits is not
  modelled, and neither is the sign of zero. So the model says what the code computes only
  up to that rounding; \<open>farctan\<close> and \<open>degrees\<close> below are exact for the same reason.
\<close>

datatype float32 = NaN | PInf | MInf | Fin real

definition FLT_MAX :: real where
  "FLT_MAX = 340282346638528859811704183484516925440"

definition FLT_OVF :: real where
  "FLT_OVF = 340282356779733661637539395458142568448"

definition FLT_TINY :: real where
  "FLT_TINY = 1 / 2 ^ 150"

definition rnd :: "real \<Rightarrow> float32" where
  "rnd x =
     (if FLT_OVF \<le> x then PInf
      else if x \<le> - FLT_OVF then MInf
      else if FLT_MAX < x then Fin FLT_MAX
      else if x < - FLT_MAX then Fin (- FLT_MAX)
      else if \<bar>x\<bar> \<le> FLT_TINY then Fin 0
      else Fin x)"

fun isnan :: "float32 \<Rightarrow> bool" where
  "isnan NaN = True"
| "isnan _ = False"

text \<open>\<^verbatim>\<open>==\<close> on floats: NaN is unequal to everything, itself included.\<close>

fun feq :: "float32 \<Rightarrow> float32 \<Rightarrow> bool" where
  "feq NaN _ = False"
| "feq _ NaN = False"
| "feq x y = (x = y)"

text \<open>\<^verbatim>\<open><\<close> on floats.\<close>

fun flt :: "float32 \<Rightarrow> float32 \<Rightarrow> bool" where
  "flt NaN _ = False"
| "flt _ NaN = False"
| "flt PInf _ = False"
| "flt MInf MInf = False"
| "flt MInf _ = True"
| "flt (Fin x) PInf = True"
| "flt (Fin x) MInf = False"
| "flt (Fin x) (Fin y) = (x < y)"

text \<open>\<^verbatim>\<open><=\<close> on floats.\<close>

fun fle :: "float32 \<Rightarrow> float32 \<Rightarrow> bool" where
  "fle NaN _ = False"
| "fle _ NaN = False"
| "fle x y = (\<not> flt y x)"

fun fsub :: "float32 \<Rightarrow> float32 \<Rightarrow> float32" where
  "fsub NaN _ = NaN"
| "fsub _ NaN = NaN"
| "fsub PInf PInf = NaN"
| "fsub MInf MInf = NaN"
| "fsub PInf _ = PInf"
| "fsub MInf _ = MInf"
| "fsub (Fin x) PInf = MInf"
| "fsub (Fin x) MInf = PInf"
| "fsub (Fin x) (Fin y) = rnd (x - y)"

fun fadd :: "float32 \<Rightarrow> float32 \<Rightarrow> float32" where
  "fadd NaN _ = NaN"
| "fadd _ NaN = NaN"
| "fadd PInf MInf = NaN"
| "fadd MInf PInf = NaN"
| "fadd PInf _ = PInf"
| "fadd MInf _ = MInf"
| "fadd (Fin x) PInf = PInf"
| "fadd (Fin x) MInf = MInf"
| "fadd (Fin x) (Fin y) = rnd (x + y)"

text \<open>\<^verbatim>\<open>x**2\<close>.\<close>

fun fsquare :: "float32 \<Rightarrow> float32" where
  "fsquare NaN = NaN"
| "fsquare PInf = PInf"
| "fsquare MInf = PInf"
| "fsquare (Fin x) = rnd (x * x)"

text \<open>\<^verbatim>\<open>np.sqrt\<close>: NaN on a negative argument.\<close>

fun fsqrt :: "float32 \<Rightarrow> float32" where
  "fsqrt NaN = NaN"
| "fsqrt PInf = PInf"
| "fsqrt MInf = NaN"
| "fsqrt (Fin x) = (if x < 0 then NaN else Fin (sqrt x))"

text \<open>\<^verbatim>\<open>np.arctan\<close>: the infinities go to \<open>\<plusminus>\<pi>/2\<close>.\<close>

fun farctan :: "float32 \<Rightarrow> float32" where
  "farctan NaN = NaN"
| "farctan PInf = Fin (pi / 2)"
| "farctan MInf = Fin (- (pi / 2))"
| "farctan (Fin x) = Fin (arctan x)"

text \<open>\<^verbatim>\<open>np.degrees\<close>: multiplication by \<open>180 / \<pi>\<close>.\<close>

fun degrees :: "float32 \<Rightarrow> float32" where
  "degrees NaN = NaN"
| "degrees PInf = PInf"
| "degrees MInf = MInf"
| "degrees (Fin x) = rnd (x * 180 / pi)"

text \<open>
  Division of two float32 values. The divisors of this program come from \<^verbatim>\<open>abs\<close>, so
  a zero divisor is the positive zero: a nonzero finite number over it is the infinity of
  the number's sign and \<open>0 / 0\<close> is NaN. No exception is raised: numpy only warns.
\<close>

fun fdiv32 :: "float32 \<Rightarrow> float32 \<Rightarrow> float32" where
  "fdiv32 NaN _ = NaN"
| "fdiv32 _ NaN = NaN"
| "fdiv32 PInf PInf = NaN"
| "fdiv32 PInf MInf = NaN"
| "fdiv32 MInf PInf = NaN"
| "fdiv32 MInf MInf = NaN"
| "fdiv32 (Fin x) PInf = Fin 0"
| "fdiv32 (Fin x) MInf = Fin 0"
| "fdiv32 PInf (Fin d) = (if d < 0 then MInf else PInf)"
| "fdiv32 MInf (Fin d) = (if d < 0 then PInf else MInf)"
| "fdiv32 (Fin x) (Fin d) =
     (if d = 0 then (if x = 0 then NaN else if 0 < x then PInf else MInf)
      else rnd (x / d))"

text \<open>
  Division of an element of a float32 array by a spacing. The spacing is a Python float;
  numpy converts it to float32 and divides in float32, so a spacing of at most \<open>2^-150\<close>
  divides as zero and one of at least \<open>FLT_OVF\<close> as infinity.
\<close>

definition fdiv :: "float32 \<Rightarrow> real \<Rightarrow> float32" where
  "fdiv x d = fdiv32 x (rnd d)"

subsection \<open>Arrays\<close>

text \<open>A 2-D array is the list of its rows; \<open>shape0\<close> and \<open>shape1\<close> are its shape.\<close>

type_synonym 'a array2 = "'a list list"

definition shape0 :: "'a array2 \<Rightarrow> nat" where
  "shape0 f = length f"

definition shape1 :: "'a array2 \<Rightarrow> nat" where
  "shape1 f = (case f of [] \<Rightarrow> 0 | row # _ \<Rightarrow> length row)"

text \<open>Every row of a 2-D array has the same length.\<close>

definition rectangular :: "'a array2 \<Rightarrow> bool" where
  "rectangular f = list_all (\<lambda>row. length row = shape1 f) f"

text \<open>\<^verbatim>\<open>arr[mask] = v\<close> with a boolean mask of the shape of \<open>arr\<close>.\<close>

definition mask_assign :: "'a array2 \<Rightarrow> bool array2 \<Rightarrow> 'a \<Rightarrow> 'a array2" where
  "mask_assign arr msk v = map2 (map2 (\<lambda>x m. if m then v else x)) arr msk"

subsection \<open>\<^verbatim>\<open>np.gradient\<close> with scalar spacings and \<^verbatim>\<open>edge_order=1\<close>\<close>

datatype error = ValueError

text \<open>
  Along one axis of length \<open>n\<close>, numpy fills the interior with
  \<^verbatim>\<open>(f[2:] - f[:-2]) / (2. * dx)\<close>, then \<^verbatim>\<open>out[0] = (f[1] - f[0]) / dx\<close> and
  \<^verbatim>\<open>out[-1] = (f[-1] - f[-2]) / dx\<close>. \<open>f\<close> reads the axis by index.
\<close>

definition diff_at :: "(nat \<Rightarrow> float32) \<Rightarrow> nat \<Rightarrow> real \<Rightarrow> nat \<Rightarrow> float32" where
  "diff_at f n dx i =
     (if i = n - 1 then fdiv (fsub (f (n - 1)) (f (n - 2))) dx
      else if i = 0 then fdiv (fsub (f 1) (f 0)) dx
      else fdiv (fsub (f (i + 1)) (f (i - 1))) (2 * dx))"

definition gradient_axis0 :: "float32 array2 \<Rightarrow> real \<Rightarrow> float32 array2" where
  "gradient_axis0 f dy =
     map (\<lambda>r. map (\<lambda>c. diff_at (\<lambda>k. f ! k ! c) (shape0 f) dy r) [0..<shape1 f])
       [0..<shape0 f]"

definition gradient_axis1 :: "float32 array2 \<Rightarrow> real \<Rightarrow> float32 array2" where
  "gradient_axis1 f dx =
     map (\<lambda>r. map (\<lambda>c. diff_at (\<lambda>k. f ! r ! k) (shape1 f) dx c) [0..<shape1 f])
       [0..<shape0 f]"

text \<open>
  \<^verbatim>\<open>np.gradient(f, d0, d1)\<close> returns the derivative along axis 0 (rows) first, then
  along axis 1 (columns). For each axis in turn it raises \<^verbatim>\<open>ValueError\<close> ("Shape of
  array too small to calculate a numerical gradient, at least (edge_order + 1) elements
  are required") when the axis has fewer than two elements.
\<close>

definition np_gradient ::
  "float32 array2 \<Rightarrow> real \<Rightarrow> real \<Rightarrow> error + (float32 array2 \<times> float32 array2)" where
  "np_gradient f d0 d1 =
     (if shape0 f < 2 then Inl ValueError
      else if shape1 f < 2 then Inl ValueError
      else Inr (gradient_axis0 f d0, gradient_axis1 f d1))"

subsection \<open>\<^verbatim>\<open>np.digitize\<close> with increasing bins and \<^verbatim>\<open>right=False\<close>\<close>

text \<open>
  The order numpy sorts and searches floats by: the usual \<open><\<close>, with NaN after every
  other value.
\<close>

definition sort_less :: "float32 \<Rightarrow> float32 \<Rightarrow> bool" where
  "sort_less x y = (flt x y \<or> (isnan y \<and> \<not> isnan x))"

text \<open>
  \<^verbatim>\<open>np.digitize(x, bins, right=False)\<close> is \<^verbatim>\<open>np.searchsorted(bins, x, side='right')\<close>
  for increasing bins: the index \<open>i\<close> with \<^verbatim>\<open>bins[i-1] <= x < bins[i]\<close>, that is the
  position of the first bin that \<open>x\<close> sorts strictly before, or \<open>len(bins)\<close>.
\<close>

fun digitize :: "float32 \<Rightarrow> float32 list \<Rightarrow> nat" where
  "digitize x [] = 0"
| "digitize x (b # bs) = (if sort_less x b then 0 else Suc (digitize x bs))"

definition bins :: "float32 list" where
  "bins = [Fin 5, Fin 15, Fin 30, Fin 45]"

subsection \<open>\<^verbatim>\<open>compute_slope_and_classes\<close>\<close>

text \<open>
  The no-data mask: equality with the sentinel when the profile has one, the NaN test
  otherwise. The array is the float32 array that \<^verbatim>\<open>astype("float32")\<close> returned, and
  the sentinel is taken to be a float32 value as well, so that the comparison is exact.
\<close>

definition nodata_mask :: "float32 array2 \<Rightarrow> float32 option \<Rightarrow> bool array2" where
  "nodata_mask dem nodata =
     (case nodata of
        Some v \<Rightarrow> map (map (\<lambda>x. feq x v)) dem
      | None \<Rightarrow> map (map isnan) dem)"

text \<open>\<^verbatim>\<open>np.degrees(np.arctan(np.sqrt(gx**2 + gy**2)))\<close> at one cell.\<close>

definition slope_of :: "float32 \<Rightarrow> float32 \<Rightarrow> float32" where
  "slope_of gx gy = degrees (farctan (fsqrt (fadd (fsquare gx) (fsquare gy))))"

text \<open>The slope array before the mask is applied.\<close>

definition raw_slope :: "float32 array2 \<Rightarrow> float32 array2 \<Rightarrow> float32 array2" where
  "raw_slope gx gy = map2 (map2 slope_of) gx gy"

record rasters =
  slope_deg :: "float32 array2"
  classes :: "nat array2"

text \<open>
  The class array is cast to uint8; the values are at most \<open>len(bins) = 4\<close>, so the cast
  changes nothing and the classes are kept as naturals.
\<close>

definition compute_slope_and_classes ::
  "float32 array2 \<Rightarrow> float32 option \<Rightarrow> real \<Rightarrow> real \<Rightarrow> error + rasters" where
  "compute_slope_and_classes dem nodata transform_a transform_e =
     (let msk = nodata_mask dem nodata;
          xres = \<bar>transform_a\<bar>;
          yres = \<bar>transform_e\<bar>
      in case np_gradient dem yres xres of
           Inl err \<Rightarrow> Inl err
         | Inr (gy, gx) \<Rightarrow>
             let slope = mask_assign (raw_slope gx gy) msk NaN;
                 cls = mask_assign (map (map (\<lambda>s. digitize s bins)) slope) msk 0
             in Inr \<lparr>slope_deg = slope, classes = cls\<rparr>)"


subsection \<open>Inputs and orderings that the properties speak of\<close>

text \<open>\<^verbatim>\<open>np.isfinite\<close>: neither NaN nor an infinity.\<close>

fun isfinite :: "float32 \<Rightarrow> bool" where
  "isfinite (Fin x) = True"
| "isfinite _ = False"

text \<open>
  The finite numbers that float32 holds exactly: a mantissa of at most 24 bits times a
  power of two from \<open>2^-149\<close> to \<open>2^104\<close>. An array whose finite cells are such numbers is
  left as it is by \<^verbatim>\<open>astype("float32")\<close>.
\<close>

definition float32_value :: "real \<Rightarrow> bool" where
  "float32_value x =
     (\<exists>(m::int) (k::nat). \<bar>m\<bar> < 2 ^ 24 \<and> k \<le> 253 \<and> x = real_of_int m * 2 ^ k / 2 ^ 149)"

fun finite32 :: "float32 \<Rightarrow> bool" where
  "finite32 (Fin x) = float32_value x"
| "finite32 _ = False"

text \<open>
  A uniform elevation ramp of \<open>R\<close> rows and \<open>C\<close> columns: the elevation starts at
  \<open>base\<close> and rises by \<open>kr\<close> from one row to the next and by \<open>kc\<close> from one column to
  the next. It is a float32 array only when its cells are float32 values, which the
  property of ramps assumes.
\<close>

definition ramp :: "nat \<Rightarrow> nat \<Rightarrow> real \<Rightarrow> real \<Rightarrow> real \<Rightarrow> float32 array2" where
  "ramp R C base kr kc =
     map (\<lambda>r. map (\<lambda>c. Fin (base + kr * real r + kc * real c)) [0..<C]) [0..<R]"

text \<open>
  Two orderings for the proofs, both false as soon as a side is NaN: \<open>mag_le x y\<close> says
  that the magnitude of \<open>x\<close> is at most that of \<open>y\<close>, and \<open>nn_le x y\<close> that
  \<open>0 \<le> x \<le> y\<close>.
\<close>

fun mag_le :: "float32 \<Rightarrow> float32 \<Rightarrow> bool" where
  "mag_le NaN _ = False"
| "mag_le _ NaN = False"
| "mag_le _ PInf = True"
| "mag_le _ MInf = True"
| "mag_le (Fin u) (Fin v) = (\<bar>u\<bar> \<le> \<bar>v\<bar>)"
| "mag_le _ (Fin v) = False"

fun nn_le :: "float32 \<Rightarrow> float32 \<Rightarrow> bool" where
  "nn_le (Fin u) (Fin v) = (0 \<le> u \<and> u \<le> v)"
| "nn_le (Fin u) PInf = (0 \<le> u)"
| "nn_le PInf PInf = True"
| "nn_le _ _ = False"

subsection \<open>Rounding\<close>

lemmas rnd_defs = rnd_def FLT_MAX_def FLT_OVF_def FLT_TINY_def

lemma FLT_TINY_less_1: "FLT_TINY < 1"
  by (simp add: FLT_TINY_def)

lemma FLT_MAX_ge_90: "90 \<le> FLT_MAX"
  by (simp add: FLT_MAX_def)

lemma rnd_0: "rnd 0 = Fin 0"
  by (simp add: rnd_defs)

lemma rnd_exact: "FLT_TINY < \<bar>x\<bar> \<Longrightarrow> \<bar>x\<bar> \<le> FLT_MAX \<Longrightarrow> rnd x = Fin x"
  by (auto simp: rnd_defs)

lemma rnd_not_nan: "rnd x \<noteq> NaN"
  by (simp add: rnd_def)

lemma rnd_eq_0_iff: "rnd x = Fin 0 \<longleftrightarrow> \<bar>x\<bar> \<le> FLT_TINY"
  by (auto simp: rnd_defs)

lemma isfinite_rnd_iff: "isfinite (rnd x) \<longleftrightarrow> \<bar>x\<bar> < FLT_OVF"
  by (auto simp: rnd_defs)

lemma nn_le_rnd: "0 \<le> s \<Longrightarrow> s \<le> t \<Longrightarrow> nn_le (rnd s) (rnd t)"
  by (auto simp: rnd_defs)

lemma mag_le_rnd: "\<bar>u\<bar> \<le> \<bar>v\<bar> \<Longrightarrow> mag_le (rnd u) (rnd v)"
  by (auto simp: rnd_defs)

lemma float32_value_int: "\<bar>n\<bar> < 2 ^ 24 \<Longrightarrow> float32_value (real_of_int n)"
  unfolding float32_value_def by (rule exI [of _ n], rule exI [of _ 149]) simp

lemma finite32_isfinite: "finite32 x \<Longrightarrow> isfinite x"
  by (cases x) simp_all

lemma fdiv_one: "fdiv x 1 = fdiv32 x (Fin 1)"
  by (simp add: fdiv_def rnd_defs)

subsection \<open>Shapes and cells of the arrays\<close>

lemma rectangular_nth: "rectangular f \<Longrightarrow> r < length f \<Longrightarrow> length (f ! r) = shape1 f"
  by (simp add: rectangular_def list_all_length)

lemma gradient_axis0_nth:
  "r < shape0 f \<Longrightarrow> c < shape1 f \<Longrightarrow>
   gradient_axis0 f dy ! r ! c = diff_at (\<lambda>k. f ! k ! c) (shape0 f) dy r"
  by (simp add: gradient_axis0_def)

lemma gradient_axis1_nth:
  "r < shape0 f \<Longrightarrow> c < shape1 f \<Longrightarrow>
   gradient_axis1 f dx ! r ! c = diff_at (\<lambda>k. f ! r ! k) (shape1 f) dx c"
  by (simp add: gradient_axis1_def)

lemma gradient_axis0_shape:
  "length (gradient_axis0 f dy) = shape0 f"
  "r < shape0 f \<Longrightarrow> length (gradient_axis0 f dy ! r) = shape1 f"
  by (simp_all add: gradient_axis0_def)

lemma gradient_axis1_shape:
  "length (gradient_axis1 f dx) = shape0 f"
  "r < shape0 f \<Longrightarrow> length (gradient_axis1 f dx ! r) = shape1 f"
  by (simp_all add: gradient_axis1_def)

lemma nodata_mask_shape:
  "length (nodata_mask dem nodata) = length dem"
  "r < length dem \<Longrightarrow> length (nodata_mask dem nodata ! r) = length (dem ! r)"
  by (simp_all add: nodata_mask_def split: option.splits)

lemma nodata_mask_nth:
  "r < length dem \<Longrightarrow> c < length (dem ! r) \<Longrightarrow>
   nodata_mask dem nodata ! r ! c =
     (case nodata of Some v \<Rightarrow> feq (dem ! r ! c) v | None \<Rightarrow> isnan (dem ! r ! c))"
  by (simp add: nodata_mask_def split: option.splits)

lemma mask_assign_shape:
  "length (mask_assign arr msk v) = min (length arr) (length msk)"
  "r < length arr \<Longrightarrow> r < length msk \<Longrightarrow>
   length (mask_assign arr msk v ! r) = min (length (arr ! r)) (length (msk ! r))"
  by (simp_all add: mask_assign_def)

lemma mask_assign_nth:
  "r < length arr \<Longrightarrow> r < length msk \<Longrightarrow> c < length (arr ! r) \<Longrightarrow> c < length (msk ! r) \<Longrightarrow>
   mask_assign arr msk v ! r ! c = (if msk ! r ! c then v else arr ! r ! c)"
  by (simp add: mask_assign_def)

lemma raw_slope_shape:
  "length (raw_slope gx gy) = min (length gx) (length gy)"
  "r < length gx \<Longrightarrow> r < length gy \<Longrightarrow>
   length (raw_slope gx gy ! r) = min (length (gx ! r)) (length (gy ! r))"
  by (simp_all add: raw_slope_def)

lemma raw_slope_nth:
  "r < length gx \<Longrightarrow> r < length gy \<Longrightarrow> c < length (gx ! r) \<Longrightarrow> c < length (gy ! r) \<Longrightarrow>
   raw_slope gx gy ! r ! c = slope_of (gx ! r ! c) (gy ! r ! c)"
  by (simp add: raw_slope_def)

lemma compute_Inr:
  "2 \<le> shape0 dem \<Longrightarrow> 2 \<le> shape1 dem \<Longrightarrow>
   compute_slope_and_classes dem nodata a e =
     Inr \<lparr>slope_deg =
            mask_assign (raw_slope (gradient_axis1 dem \<bar>a\<bar>) (gradient_axis0 dem \<bar>e\<bar>))
              (nodata_mask dem nodata) NaN,
          classes =
            mask_assign
              (map (map (\<lambda>s. digitize s bins))
                 (mask_assign (raw_slope (gradient_axis1 dem \<bar>a\<bar>) (gradient_axis0 dem \<bar>e\<bar>))
                    (nodata_mask dem nodata) NaN))
              (nodata_mask dem nodata) 0\<rparr>"
  by (simp add: compute_slope_and_classes_def np_gradient_def Let_def)

lemma compute_Inl:
  "shape0 dem < 2 \<or> shape1 dem < 2 \<Longrightarrow>
   compute_slope_and_classes dem nodata a e = Inl ValueError"
  by (auto simp add: compute_slope_and_classes_def np_gradient_def)

lemma compute_Inr_shape:
  "compute_slope_and_classes dem nodata a e = Inr out \<Longrightarrow> 2 \<le> shape0 dem \<and> 2 \<le> shape1 dem"
  by (rule ccontr) (auto simp: compute_Inl not_le)

lemma slope_cell:
  assumes "rectangular dem" "2 \<le> shape0 dem" "2 \<le> shape1 dem"
    and "r < shape0 dem" "c < shape1 dem"
    and "compute_slope_and_classes dem nodata a e = Inr out"
  shows "slope_deg out ! r ! c =
           (if nodata_mask dem nodata ! r ! c then NaN
            else slope_of (diff_at (\<lambda>k. dem ! r ! k) (shape1 dem) \<bar>a\<bar> c)
                          (diff_at (\<lambda>k. dem ! k ! c) (shape0 dem) \<bar>e\<bar> r))"
proof -
  have r: "r < length dem" using assms(4) by (simp add: shape0_def)
  have c: "c < length (dem ! r)" using assms(1,5) r by (simp add: rectangular_nth)
  have "slope_deg out = mask_assign (raw_slope (gradient_axis1 dem \<bar>a\<bar>) (gradient_axis0 dem \<bar>e\<bar>))
              (nodata_mask dem nodata) NaN"
    using assms(6) compute_Inr[OF assms(2,3), of nodata a e] by auto
  then show ?thesis
    using r c assms(4,5)
    by (simp add: mask_assign_nth raw_slope_nth raw_slope_shape gradient_axis0_shape
        gradient_axis1_shape nodata_mask_shape gradient_axis0_nth gradient_axis1_nth shape0_def)
qed

lemma class_cell:
  assumes "rectangular dem" "2 \<le> shape0 dem" "2 \<le> shape1 dem"
    and "r < shape0 dem" "c < shape1 dem"
    and "compute_slope_and_classes dem nodata a e = Inr out"
  shows "classes out ! r ! c =
           (if nodata_mask dem nodata ! r ! c then 0
            else digitize (slope_deg out ! r ! c) bins)"
proof -
  have r: "r < length dem" using assms(4) by (simp add: shape0_def)
  have c: "c < length (dem ! r)" using assms(1,5) r by (simp add: rectangular_nth)
  have "classes out = mask_assign (map (map (\<lambda>s. digitize s bins)) (slope_deg out))
              (nodata_mask dem nodata) 0"
    and "slope_deg out = mask_assign (raw_slope (gradient_axis1 dem \<bar>a\<bar>) (gradient_axis0 dem \<bar>e\<bar>))
              (nodata_mask dem nodata) NaN"
    using assms(6) compute_Inr[OF assms(2,3), of nodata a e] by auto
  then show ?thesis
    using r c assms(4,5)
    by (simp add: mask_assign_nth mask_assign_shape raw_slope_shape gradient_axis0_shape
        gradient_axis1_shape nodata_mask_shape shape0_def)
qed

text \<open>
  C3. Whenever the computation produces its two arrays, a cell that the no-data mask marks
  holds NaN in the slope array and 0 in the class array, whatever elevation is stored there
  and whatever slope was computed for it; and the arrays are produced for every array with
  at least two rows and two columns.
\<close>

theorem mask_propagation:
  assumes "rectangular dem" "r < shape0 dem" "c < shape1 dem"
    and "nodata_mask dem nodata ! r ! c"
  shows "(2 \<le> shape0 dem \<and> 2 \<le> shape1 dem \<longrightarrow>
           (\<exists>out. compute_slope_and_classes dem nodata a e = Inr out)) \<and>
         (\<forall>out. compute_slope_and_classes dem nodata a e = Inr out \<longrightarrow>
           slope_deg out ! r ! c = NaN \<and> classes out ! r ! c = 0)"
proof (intro conjI allI impI)
  assume "2 \<le> shape0 dem \<and> 2 \<le> shape1 dem"
  then show "\<exists>out. compute_slope_and_classes dem nodata a e = Inr out"
    by (simp add: compute_Inr)
next
  fix out assume out: "compute_slope_and_classes dem nodata a e = Inr out"
  then have sh: "2 \<le> shape0 dem" "2 \<le> shape1 dem"
    using compute_Inr_shape by blast+
  show "slope_deg out ! r ! c = NaN"
    using slope_cell[OF assms(1) sh assms(2,3) out] assms(4) by simp
  show "classes out ! r ! c = 0"
    using class_cell[OF assms(1) sh assms(2,3) out] assms(4) by simp
qed

theorem mask_propagation_witness:
  "rectangular [[Fin (- 9999), Fin 1], [Fin 2, Fin 3]] \<and>
   nodata_mask [[Fin (- 9999), Fin 1], [Fin 2, Fin 3]] (Some (Fin (- 9999))) ! 0 ! 0 \<and>
   (\<exists>out. compute_slope_and_classes [[Fin (- 9999), Fin 1], [Fin 2, Fin 3]]
             (Some (Fin (- 9999))) 1 (- 1) = Inr out \<and>
      slope_deg out ! 0 ! 0 = NaN \<and> classes out ! 0 ! 0 = 0)"
proof -
  let ?D = "[[Fin (- 9999), Fin 1], [Fin 2, Fin 3]]"
  have h1: "rectangular ?D" by (simp add: rectangular_def shape1_def)
  have h2: "0 < shape0 ?D" by (simp add: shape0_def)
  have h3: "0 < shape1 ?D" by (simp add: shape1_def)
  have h4: "nodata_mask ?D (Some (Fin (- 9999))) ! 0 ! 0" by (simp add: nodata_mask_def)
  have h5: "2 \<le> shape0 ?D \<and> 2 \<le> shape1 ?D" by (simp add: shape0_def shape1_def)
  show ?thesis
    using mask_propagation [OF h1 h2 h3 h4, of 1 "- 1"] h1 h4 h5 by blast
qed

subsection \<open>Failures\<close>

lemmas eval_defs = compute_slope_and_classes_def np_gradient_def gradient_axis0_def
  gradient_axis1_def diff_at_def nodata_mask_def mask_assign_def raw_slope_def slope_of_def
  bins_def sort_less_def fdiv_def rnd_def FLT_MAX_def FLT_OVF_def FLT_TINY_def shape0_def
  shape1_def

text \<open>
  A 1x5 array is not processed: \<^verbatim>\<open>np.gradient\<close> raises on the axis of length 1.
\<close>

theorem degenerate_1x5_counterexample:
  "compute_slope_and_classes [[Fin 1, Fin 2, Fin 3, Fin 4, Fin 5]] None 1 1 = Inl ValueError"
  by (simp add: compute_slope_and_classes_def np_gradient_def shape0_def)

text \<open>
  C4, as the code has it. An array with fewer than two rows or fewer than two columns is
  rejected with the \<^verbatim>\<open>ValueError\<close> of \<^verbatim>\<open>np.gradient\<close> and nothing is written;
  there is no one-sided fallback for a degenerate axis. Every array with at least two rows
  and two columns is processed.
\<close>

theorem degenerate_grid_rejected:
  "(shape0 dem < 2 \<or> shape1 dem < 2 \<longrightarrow>
      compute_slope_and_classes dem nodata a e = Inl ValueError) \<and>
   (2 \<le> shape0 dem \<and> 2 \<le> shape1 dem \<longrightarrow>
      (\<exists>out. compute_slope_and_classes dem nodata a e = Inr out))"
  using compute_Inl [of dem nodata a e] compute_Inr [of dem nodata a e] by blast

theorem degenerate_grid_rejected_witness:
  "shape1 [[Fin 1], [Fin 2], [Fin 3]] < 2 \<and>
   compute_slope_and_classes [[Fin 1], [Fin 2], [Fin 3]] (Some (Fin 0)) 1 (- 1) = Inl ValueError \<and>
   2 \<le> shape0 [[Fin 1, Fin 2], [Fin 3, Fin 4]] \<and> 2 \<le> shape1 [[Fin 1, Fin 2], [Fin 3, Fin 4]] \<and>
   (\<exists>out. compute_slope_and_classes [[Fin 1, Fin 2], [Fin 3, Fin 4]] (Some (Fin 0)) 1 (- 1) = Inr out)"
proof -
  have h1: "shape1 [[Fin 1], [Fin 2], [Fin 3]] < 2" by (simp add: shape1_def)
  have h2: "2 \<le> shape0 [[Fin 1, Fin 2], [Fin 3, Fin 4]] \<and> 2 \<le> shape1 [[Fin 1, Fin 2], [Fin 3, Fin 4]]"
    by (simp add: shape0_def shape1_def)
  show ?thesis
    using h1 h2
      degenerate_grid_rejected [of "[[Fin 1], [Fin 2], [Fin 3]]" "Some (Fin 0)" 1 "- 1"]
      degenerate_grid_rejected [of "[[Fin 1, Fin 2], [Fin 3, Fin 4]]" "Some (Fin 0)" 1 "- 1"]
    by blast
qed

text \<open>
  With the transform coefficients \<open>a = -1\<close> and \<open>e = 0\<close> the computation returns its two
  arrays: the row spacing 0 makes every row gradient \<open>0 / 0\<close>, that is NaN.
\<close>

theorem nonpositive_spacing_counterexample:
  "compute_slope_and_classes [[Fin 0, Fin 1], [Fin 0, Fin 1]] None (- 1) 0 =
     Inr \<lparr>slope_deg = [[NaN, NaN], [NaN, NaN]], classes = [[4, 4], [4, 4]]\<rparr>"
  by (simp add: eval_defs)

text \<open>
  C5, as the code has it. No spacing is ever rejected. The spacings are the absolute values
  of the transform coefficients, so a negative coefficient gives the output of its
  magnitude; a zero spacing is divided by without an exception. The outcome is an output
  for every array with at least two rows and two columns, whatever the coefficients are,
  and the only error is the one for a too small array.
\<close>

theorem spacing_never_rejected:
  "compute_slope_and_classes dem nodata a e = compute_slope_and_classes dem nodata \<bar>a\<bar> \<bar>e\<bar> \<and>
   (2 \<le> shape0 dem \<and> 2 \<le> shape1 dem \<longrightarrow>
      (\<exists>out. compute_slope_and_classes dem nodata a e = Inr out)) \<and>
   (\<forall>err. compute_slope_and_classes dem nodata a e = Inl err \<longrightarrow>
      shape0 dem < 2 \<or> shape1 dem < 2)"
proof (intro conjI allI impI)
  show "compute_slope_and_classes dem nodata a e = compute_slope_and_classes dem nodata \<bar>a\<bar> \<bar>e\<bar>"
    by (simp add: compute_slope_and_classes_def)
next
  assume "2 \<le> shape0 dem \<and> 2 \<le> shape1 dem"
  then show "\<exists>out. compute_slope_and_classes dem nodata a e = Inr out"
    by (simp add: compute_Inr)
next
  fix err assume "compute_slope_and_classes dem nodata a e = Inl err"
  then show "shape0 dem < 2 \<or> shape1 dem < 2"
    using compute_Inr [of dem nodata a e] by (cases "2 \<le> shape0 dem \<and> 2 \<le> shape1 dem") auto
qed

theorem spacing_never_rejected_witness:
  "2 \<le> shape0 [[Fin 0, Fin 1], [Fin 0, Fin 1]] \<and> 2 \<le> shape1 [[Fin 0, Fin 1], [Fin 0, Fin 1]] \<and>
   (\<exists>out. compute_slope_and_classes [[Fin 0, Fin 1], [Fin 0, Fin 1]] None (- 1) 0 = Inr out) \<and>
   compute_slope_and_classes [[Fin 0, Fin 1], [Fin 0, Fin 1]] None (- 1) 0 =
     compute_slope_and_classes [[Fin 0, Fin 1], [Fin 0, Fin 1]] None 1 0"
proof -
  have h: "2 \<le> shape0 [[Fin 0, Fin 1], [Fin 0, Fin 1]] \<and> 2 \<le> shape1 [[Fin 0, Fin 1], [Fin 0, Fin 1]]"
    by (simp add: shape0_def shape1_def)
  have "\<exists>out. compute_slope_and_classes [[Fin 0, Fin 1], [Fin 0, Fin 1]] None (- 1) 0 = Inr out"
    and "compute_slope_and_classes [[Fin 0, Fin 1], [Fin 0, Fin 1]] None (- 1) 0 =
     compute_slope_and_classes [[Fin 0, Fin 1], [Fin 0, Fin 1]] None \<bar>- 1\<bar> \<bar>0\<bar>"
    using h spacing_never_rejected [of "[[Fin 0, Fin 1], [Fin 0, Fin 1]]" None "- 1" 0]
    by blast+
  then show ?thesis
    using h by simp
qed

subsection \<open>The no-data mask\<close>

lemma feq_NaN_right [simp]: "feq x NaN = False"
  by (cases x) simp_all

lemma map2_all_False:
  "length ms = length xs \<Longrightarrow> map2 (\<lambda>x m. if m then v else x) xs (map (\<lambda>_. False) ms) = xs"
  by (induction xs ms rule: list_induct2') auto

lemma mask_assign_all_False:
  assumes "length msk = length arr" "\<forall>r < length arr. length (msk ! r) = length (arr ! r)"
  shows "mask_assign arr (map (map (\<lambda>_. False)) msk) v = arr"
proof (rule nth_equalityI)
  show "length (mask_assign arr (map (map (\<lambda>_. False)) msk) v) = length arr"
    using assms(1) by (simp add: mask_assign_def)
next
  fix i assume "i < length (mask_assign arr (map (map (\<lambda>_. False)) msk) v)"
  then have i: "i < length arr" "i < length msk" using assms(1) by (simp_all add: mask_assign_def)
  then have "length (msk ! i) = length (arr ! i)" using assms(2) by simp
  then show "mask_assign arr (map (map (\<lambda>_. False)) msk) v ! i = arr ! i"
    using i by (simp add: mask_assign_def map2_all_False)
qed

text \<open>
  C9. With the sentinel NaN the mask \<^verbatim>\<open>dem == nodata\<close> is false everywhere, since NaN
  is unequal to itself; the NaN test is the mask only when the profile has no sentinel,
  and with any sentinel the mask is the equality test. So with the sentinel NaN nothing is
  masked: the arrays written are the slope and its classes as computed, NaN cells included.
\<close>

theorem nan_sentinel_masks_nothing:
  "nodata_mask dem (Some NaN) = map (map (\<lambda>x. False)) dem \<and>
   nodata_mask dem (Some v) = map (map (\<lambda>x. feq x v)) dem \<and>
   nodata_mask dem None = map (map isnan) dem \<and>
   (rectangular dem \<longrightarrow>
      compute_slope_and_classes dem (Some NaN) a e =
        (case np_gradient dem \<bar>e\<bar> \<bar>a\<bar> of
           Inl err \<Rightarrow> Inl err
         | Inr (gy, gx) \<Rightarrow>
             Inr \<lparr>slope_deg = raw_slope gx gy,
                  classes = map (map (\<lambda>s. digitize s bins)) (raw_slope gx gy)\<rparr>))"
proof (intro conjI impI)
  show m: "nodata_mask dem (Some NaN) = map (map (\<lambda>x. False)) dem"
    by (simp add: nodata_mask_def)
  show "nodata_mask dem (Some v) = map (map (\<lambda>x. feq x v)) dem"
    by (simp add: nodata_mask_def)
  show "nodata_mask dem None = map (map isnan) dem"
    by (simp add: nodata_mask_def)
  assume rect: "rectangular dem"
  show "compute_slope_and_classes dem (Some NaN) a e =
        (case np_gradient dem \<bar>e\<bar> \<bar>a\<bar> of
           Inl err \<Rightarrow> Inl err
         | Inr (gy, gx) \<Rightarrow>
             Inr \<lparr>slope_deg = raw_slope gx gy,
                  classes = map (map (\<lambda>s. digitize s bins)) (raw_slope gx gy)\<rparr>)"
  proof (cases "2 \<le> shape0 dem \<and> 2 \<le> shape1 dem")
    case False
    then show ?thesis
      by (auto simp: compute_slope_and_classes_def np_gradient_def)
  next
    case True
    let ?s = "raw_slope (gradient_axis1 dem \<bar>a\<bar>) (gradient_axis0 dem \<bar>e\<bar>)"
    have len: "length dem = length ?s"
      by (simp add: raw_slope_shape gradient_axis0_shape gradient_axis1_shape shape0_def)
    have rows: "\<forall>r < length ?s. length (dem ! r) = length (?s ! r)"
      using rect len
      by (simp add: raw_slope_shape gradient_axis0_shape gradient_axis1_shape shape0_def
          rectangular_nth)
    have s: "mask_assign ?s (map (map (\<lambda>x. False)) dem) NaN = ?s"
      using mask_assign_all_False [OF len rows] by simp
    have c: "mask_assign (map (map (\<lambda>s. digitize s bins)) ?s) (map (map (\<lambda>x. False)) dem) 0
               = map (map (\<lambda>s. digitize s bins)) ?s"
      using mask_assign_all_False [of dem "map (map (\<lambda>s. digitize s bins)) ?s" 0] len rows
      by simp
    show ?thesis
      using True by (simp add: compute_Inr m np_gradient_def s c)
  qed
qed

theorem nan_sentinel_masks_nothing_witness:
  "rectangular [[NaN, Fin 1], [Fin 1, Fin 1]] \<and>
   nodata_mask [[NaN, Fin 1], [Fin 1, Fin 1]] (Some NaN) = [[False, False], [False, False]] \<and>
   compute_slope_and_classes [[NaN, Fin 1], [Fin 1, Fin 1]] (Some NaN) 1 1 =
     Inr \<lparr>slope_deg = [[NaN, NaN], [NaN, Fin 0]], classes = [[4, 4], [4, 0]]\<rparr>"
proof -
  have h: "rectangular [[NaN, Fin 1], [Fin 1, Fin 1]]"
    by (simp add: rectangular_def shape1_def)
  show ?thesis
    using h nan_sentinel_masks_nothing [of "[[NaN, Fin 1], [Fin 1, Fin 1]]" NaN 1 1]
    by (simp add: np_gradient_def gradient_axis0_def gradient_axis1_def diff_at_def
        raw_slope_def slope_of_def bins_def sort_less_def fdiv_def rnd_defs shape0_def
        shape1_def)
qed

subsection \<open>Slopes in degrees and their classes\<close>

lemma deg_arctan_nonneg: "0 \<le> x \<Longrightarrow> 0 \<le> arctan x * 180 / pi"
  by (simp add: zero_le_arctan_iff)

lemma deg_arctan_less_90: "arctan x * 180 / pi < 90"
proof -
  have "arctan x < pi / 2" by (rule arctan_ubound)
  then have "arctan x * 180 < 90 * pi" by simp
  then show ?thesis by (simp add: pos_divide_less_eq)
qed

lemma deg_arctan_ge_45: "1 \<le> x \<Longrightarrow> 45 \<le> arctan x * 180 / pi"
proof -
  assume "1 \<le> x"
  then have "arctan 1 \<le> arctan x" by (simp add: arctan_le_iff)
  then have "pi / 4 \<le> arctan x" by (simp add: arctan_one)
  then have "45 * pi \<le> arctan x * 180" by simp
  then show ?thesis by (simp add: pos_le_divide_eq)
qed

lemma deg_arctan_pos: "0 < x \<Longrightarrow> 0 < arctan x * 180 / pi"
  by (simp add: zero_less_arctan_iff)

lemma rnd_deg_arctan: "1 \<le> x \<Longrightarrow> rnd (arctan x * 180 / pi) = Fin (arctan x * 180 / pi)"
proof -
  assume "1 \<le> x"
  then have "45 \<le> arctan x * 180 / pi" by (rule deg_arctan_ge_45)
  moreover have "arctan x * 180 / pi < 90" by (rule deg_arctan_less_90)
  ultimately have "FLT_TINY < \<bar>arctan x * 180 / pi\<bar>" "\<bar>arctan x * 180 / pi\<bar> \<le> FLT_MAX"
    using FLT_TINY_less_1 FLT_MAX_ge_90 by linarith+
  then show ?thesis by (rule rnd_exact)
qed

lemma slope_of_zero: "slope_of (Fin 0) (Fin 0) = Fin 0"
  by (simp add: slope_of_def rnd_0)

lemma slope_of_axis:
  assumes "1 \<le> x" "x * x \<le> FLT_MAX"
  shows "slope_of (Fin x) (Fin 0) = Fin (arctan x * 180 / pi)"
    and "slope_of (Fin 0) (Fin x) = Fin (arctan x * 180 / pi)"
proof -
  have "1 * 1 \<le> x * x" using assms(1) by (intro mult_mono) simp_all
  then have "FLT_TINY < \<bar>x * x\<bar>" "\<bar>x * x\<bar> \<le> FLT_MAX"
    using assms(2) FLT_TINY_less_1 by simp_all
  then have "rnd (x * x) = Fin (x * x)"
    by (rule rnd_exact)
  moreover have "sqrt (x * x) = x" using assms(1) by (simp add: real_sqrt_abs2)
  moreover have "\<not> x * x < 0" by (simp add: not_less)
  ultimately show "slope_of (Fin x) (Fin 0) = Fin (arctan x * 180 / pi)"
    and "slope_of (Fin 0) (Fin x) = Fin (arctan x * 180 / pi)"
    using assms(1) by (simp_all add: slope_of_def rnd_0 rnd_deg_arctan)
qed

lemma digitize_bins:
  "digitize s bins =
     (if flt s (Fin 5) then 0 else if flt s (Fin 15) then 1 else if flt s (Fin 30) then 2
      else if flt s (Fin 45) then 3 else 4)"
  by (simp add: bins_def sort_less_def)

lemma digitize_bins_Fin:
  "digitize (Fin s) bins =
     (if s < 5 then 0 else if s < 15 then 1 else if s < 30 then 2 else if s < 45 then 3 else 4)"
  by (simp add: digitize_bins)

lemma fle_not_flt: "fle x y \<Longrightarrow> \<not> flt y x"
  by (cases x; cases y) simp_all

lemma flt_trans_Fin: "flt s (Fin u) \<Longrightarrow> u \<le> v \<Longrightarrow> flt s (Fin v)"
  by (cases s) simp_all

text \<open>
  C2. At every cell that the mask leaves valid, the class follows the right-open bins over
  the thresholds 5, 15, 30, 45: class 0 below 5, class 1 from 5 to below 15, class 2 from 15
  to below 30, class 3 from 30 to below 45, class 4 from 45 on. The comparisons are the
  float comparisons of the slope written at the cell. A slope of exactly 5 is class 1,
  exactly 15 is class 2 and exactly 45 is class 4.
\<close>

theorem right_open_binning:
  assumes "rectangular dem" "2 \<le> shape0 dem" "2 \<le> shape1 dem"
    and "r < shape0 dem" "c < shape1 dem"
    and "\<not> nodata_mask dem nodata ! r ! c"
  shows "(\<exists>out. compute_slope_and_classes dem nodata a e = Inr out \<and>
            (flt (slope_deg out ! r ! c) (Fin 5) \<longrightarrow> classes out ! r ! c = 0) \<and>
            (fle (Fin 5) (slope_deg out ! r ! c) \<and> flt (slope_deg out ! r ! c) (Fin 15) \<longrightarrow>
               classes out ! r ! c = 1) \<and>
            (fle (Fin 15) (slope_deg out ! r ! c) \<and> flt (slope_deg out ! r ! c) (Fin 30) \<longrightarrow>
               classes out ! r ! c = 2) \<and>
            (fle (Fin 30) (slope_deg out ! r ! c) \<and> flt (slope_deg out ! r ! c) (Fin 45) \<longrightarrow>
               classes out ! r ! c = 3) \<and>
            (fle (Fin 45) (slope_deg out ! r ! c) \<longrightarrow> classes out ! r ! c = 4)) \<and>
         digitize (Fin 5) bins = 1 \<and> digitize (Fin 15) bins = 2 \<and> digitize (Fin 45) bins = 4"
proof -
  obtain out where out: "compute_slope_and_classes dem nodata a e = Inr out"
    using compute_Inr [OF assms(2,3)] by blast
  let ?s = "slope_deg out ! r ! c"
  have k: "classes out ! r ! c = digitize ?s bins"
    using class_cell [OF assms(1-5) out] assms(6) by simp
  have b0: "flt ?s (Fin 5) \<longrightarrow> classes out ! r ! c = 0"
    by (simp add: k digitize_bins)
  have b1: "fle (Fin 5) ?s \<and> flt ?s (Fin 15) \<longrightarrow> classes out ! r ! c = 1"
    by (auto simp: k digitize_bins dest: fle_not_flt)
  have b2: "fle (Fin 15) ?s \<and> flt ?s (Fin 30) \<longrightarrow> classes out ! r ! c = 2"
    using flt_trans_Fin [of ?s 5 15]
    by (auto simp: k digitize_bins dest: fle_not_flt)
  have b3: "fle (Fin 30) ?s \<and> flt ?s (Fin 45) \<longrightarrow> classes out ! r ! c = 3"
    using flt_trans_Fin [of ?s 5 30] flt_trans_Fin [of ?s 15 30]
    by (auto simp: k digitize_bins dest: fle_not_flt)
  have b4: "fle (Fin 45) ?s \<longrightarrow> classes out ! r ! c = 4"
    using flt_trans_Fin [of ?s 5 45] flt_trans_Fin [of ?s 15 45] flt_trans_Fin [of ?s 30 45]
    by (auto simp: k digitize_bins dest: fle_not_flt)
  have "digitize (Fin 5) bins = 1 \<and> digitize (Fin 15) bins = 2 \<and> digitize (Fin 45) bins = 4"
    by (simp add: digitize_bins_Fin)
  then show ?thesis
    using out b0 b1 b2 b3 b4 by blast
qed

lemma slope_example_45:
  "compute_slope_and_classes [[Fin 0, Fin 1], [Fin 0, Fin 1]] None 1 (- 1) =
     Inr \<lparr>slope_deg = [[Fin 45, Fin 45], [Fin 45, Fin 45]], classes = [[4, 4], [4, 4]]\<rparr>"
  by (simp add: eval_defs arctan_one)

theorem right_open_binning_witness:
  "rectangular [[Fin 0, Fin 1], [Fin 0, Fin 1]] \<and>
   \<not> nodata_mask [[Fin 0, Fin 1], [Fin 0, Fin 1]] None ! 0 ! 0 \<and>
   (\<exists>out. compute_slope_and_classes [[Fin 0, Fin 1], [Fin 0, Fin 1]] None 1 (- 1) = Inr out \<and>
      slope_deg out ! 0 ! 0 = Fin 45 \<and> classes out ! 0 ! 0 = 4)"
proof -
  let ?D = "[[Fin 0, Fin 1], [Fin 0, Fin 1]]"
  have h1: "rectangular ?D" by (simp add: rectangular_def shape1_def)
  have h2: "2 \<le> shape0 ?D" by (simp add: shape0_def)
  have h3: "2 \<le> shape1 ?D" by (simp add: shape1_def)
  have h4: "0 < shape0 ?D" by (simp add: shape0_def)
  have h5: "0 < shape1 ?D" by (simp add: shape1_def)
  have h6: "\<not> nodata_mask ?D None ! 0 ! 0" by (simp add: nodata_mask_def)
  obtain out where out: "compute_slope_and_classes ?D None 1 (- 1) = Inr out"
    and top: "fle (Fin 45) (slope_deg out ! 0 ! 0) \<longrightarrow> classes out ! 0 ! 0 = 4"
    using right_open_binning [OF h1 h2 h3 h4 h5 h6, of 1 "- 1"] by blast
  have s: "slope_deg out ! 0 ! 0 = Fin 45"
    using out slope_example_45 by auto
  then have "classes out ! 0 ! 0 = 4" using top by simp
  then show ?thesis using h1 h6 out s by blast
qed

subsection \<open>The gradient stencil\<close>

lemma diff_at_cases:
  "(0 < i \<and> i < n - 1 \<longrightarrow> diff_at f n dx i = fdiv (fsub (f (i + 1)) (f (i - 1))) (2 * dx)) \<and>
   (i = 0 \<and> 2 \<le> n \<longrightarrow> diff_at f n dx i = fdiv (fsub (f 1) (f 0)) dx) \<and>
   (i = n - 1 \<longrightarrow> diff_at f n dx i = fdiv (fsub (f i) (f (i - 1))) dx)"
proof -
  have "n - 2 = n - 1 - 1" by simp
  then show ?thesis
    by (auto simp: diff_at_def)
qed

lemma slope_example_3x3:
  "compute_slope_and_classes
     [[Fin 0, Fin 0, Fin 0], [Fin 0, Fin 0, Fin 0], [Fin 10, Fin 10, Fin 10]] None 1 1 =
   Inr \<lparr>slope_deg =
          [[Fin 0, Fin 0, Fin 0],
           [Fin (arctan 5 * 180 / pi), Fin (arctan 5 * 180 / pi), Fin (arctan 5 * 180 / pi)],
           [Fin (arctan 10 * 180 / pi), Fin (arctan 10 * 180 / pi),
            Fin (arctan 10 * 180 / pi)]],
        classes = [[0, 0, 0], [4, 4, 4], [4, 4, 4]]\<rparr>"
proof -
  have s0: "slope_of (Fin 0) (Fin 0) = Fin 0"
    by (rule slope_of_zero)
  have s5: "slope_of (Fin 0) (Fin 5) = Fin (arctan 5 * 180 / pi)"
    by (rule slope_of_axis) (simp_all add: FLT_MAX_def)
  have s10: "slope_of (Fin 0) (Fin 10) = Fin (arctan 10 * 180 / pi)"
    by (rule slope_of_axis) (simp_all add: FLT_MAX_def)
  have c5: "digitize (Fin (arctan 5 * 180 / pi)) bins = 4"
    using deg_arctan_ge_45 [of 5] by (simp add: digitize_bins_Fin)
  have c10: "digitize (Fin (arctan 10 * 180 / pi)) bins = 4"
    using deg_arctan_ge_45 [of 10] by (simp add: digitize_bins_Fin)
  have c0: "digitize (Fin 0) bins = 0"
    by (simp add: digitize_bins_Fin)
  show ?thesis
    by (simp add: compute_slope_and_classes_def np_gradient_def gradient_axis0_def
        gradient_axis1_def diff_at_def nodata_mask_def mask_assign_def raw_slope_def
        shape0_def shape1_def fdiv_def rnd_defs s0 s5 s10 c0 c5 c10)
qed

text \<open>
  On the 3x3 example the bottom row is an edge row: its row gradient is the backward
  difference \<open>(10 - 0) / 1 = 10\<close>, so the slope at cell (2,1) is \<open>atan 10\<close> in degrees,
  not 0.
\<close>

theorem cell_2_1_counterexample:
  "compute_slope_and_classes
     [[Fin 0, Fin 0, Fin 0], [Fin 0, Fin 0, Fin 0], [Fin 10, Fin 10, Fin 10]] None 1 1 =
   Inr \<lparr>slope_deg =
          [[Fin 0, Fin 0, Fin 0],
           [Fin (arctan 5 * 180 / pi), Fin (arctan 5 * 180 / pi), Fin (arctan 5 * 180 / pi)],
           [Fin (arctan 10 * 180 / pi), Fin (arctan 10 * 180 / pi),
            Fin (arctan 10 * 180 / pi)]],
        classes = [[0, 0, 0], [4, 4, 4], [4, 4, 4]]\<rparr> \<and>
   Fin (arctan 10 * 180 / pi) \<noteq> Fin 0"
  using slope_example_3x3 deg_arctan_pos [of 10] by simp

text \<open>
  C1, as the code has it. For every array with at least two rows and two columns, along
  each axis the gradient at a cell is the centered difference over twice the spacing when
  the cell is strictly inside the axis, the forward difference over the spacing at index 0
  and the backward difference over the spacing at the last index; the slope of a valid cell
  is computed from these two gradients. On the 3x3 example with spacings (1,1) the top row
  has slope 0 and class 0, the middle row has row gradient 5, slope \<open>atan 5\<close> in degrees
  and class 4, and the bottom row has row gradient 10, slope \<open>atan 10\<close> in degrees and
  class 4.
\<close>

theorem gradient_stencil:
  assumes "rectangular dem" "2 \<le> shape0 dem" "2 \<le> shape1 dem"
    and "r < shape0 dem" "c < shape1 dem"
  shows "(\<exists>gy gx out.
            np_gradient dem \<bar>e\<bar> \<bar>a\<bar> = Inr (gy, gx) \<and>
            compute_slope_and_classes dem nodata a e = Inr out \<and>
            (0 < c \<and> c < shape1 dem - 1 \<longrightarrow>
               gx ! r ! c = fdiv (fsub (dem ! r ! (c + 1)) (dem ! r ! (c - 1))) (2 * \<bar>a\<bar>)) \<and>
            (c = 0 \<longrightarrow> gx ! r ! c = fdiv (fsub (dem ! r ! 1) (dem ! r ! 0)) \<bar>a\<bar>) \<and>
            (c = shape1 dem - 1 \<longrightarrow>
               gx ! r ! c = fdiv (fsub (dem ! r ! c) (dem ! r ! (c - 1))) \<bar>a\<bar>) \<and>
            (0 < r \<and> r < shape0 dem - 1 \<longrightarrow>
               gy ! r ! c = fdiv (fsub (dem ! (r + 1) ! c) (dem ! (r - 1) ! c)) (2 * \<bar>e\<bar>)) \<and>
            (r = 0 \<longrightarrow> gy ! r ! c = fdiv (fsub (dem ! 1 ! c) (dem ! 0 ! c)) \<bar>e\<bar>) \<and>
            (r = shape0 dem - 1 \<longrightarrow>
               gy ! r ! c = fdiv (fsub (dem ! r ! c) (dem ! (r - 1) ! c)) \<bar>e\<bar>) \<and>
            (\<not> nodata_mask dem nodata ! r ! c \<longrightarrow>
               slope_deg out ! r ! c = slope_of (gx ! r ! c) (gy ! r ! c) \<and>
               classes out ! r ! c = digitize (slope_deg out ! r ! c) bins)) \<and>
         compute_slope_and_classes
           [[Fin 0, Fin 0, Fin 0], [Fin 0, Fin 0, Fin 0], [Fin 10, Fin 10, Fin 10]] None 1 1 =
         Inr \<lparr>slope_deg =
                [[Fin 0, Fin 0, Fin 0],
                 [Fin (arctan 5 * 180 / pi), Fin (arctan 5 * 180 / pi),
                  Fin (arctan 5 * 180 / pi)],
                 [Fin (arctan 10 * 180 / pi), Fin (arctan 10 * 180 / pi),
                  Fin (arctan 10 * 180 / pi)]],
              classes = [[0, 0, 0], [4, 4, 4], [4, 4, 4]]\<rparr>"
proof -
  let ?gy = "gradient_axis0 dem \<bar>e\<bar>" and ?gx = "gradient_axis1 dem \<bar>a\<bar>"
  obtain out where out: "compute_slope_and_classes dem nodata a e = Inr out"
    using compute_Inr [OF assms(2,3)] by blast
  have g: "np_gradient dem \<bar>e\<bar> \<bar>a\<bar> = Inr (?gy, ?gx)"
    using assms(2,3) by (simp add: np_gradient_def)
  have gx: "?gx ! r ! c = diff_at (\<lambda>k. dem ! r ! k) (shape1 dem) \<bar>a\<bar> c"
    using assms(4,5) by (simp add: gradient_axis1_nth)
  have gy: "?gy ! r ! c = diff_at (\<lambda>k. dem ! k ! c) (shape0 dem) \<bar>e\<bar> r"
    using assms(4,5) by (simp add: gradient_axis0_nth)
  have x1: "0 < c \<and> c < shape1 dem - 1 \<longrightarrow>
      ?gx ! r ! c = fdiv (fsub (dem ! r ! (c + 1)) (dem ! r ! (c - 1))) (2 * \<bar>a\<bar>)"
    and x2: "c = 0 \<longrightarrow> ?gx ! r ! c = fdiv (fsub (dem ! r ! 1) (dem ! r ! 0)) \<bar>a\<bar>"
    and x3: "c = shape1 dem - 1 \<longrightarrow>
      ?gx ! r ! c = fdiv (fsub (dem ! r ! c) (dem ! r ! (c - 1))) \<bar>a\<bar>"
    using diff_at_cases [of c "shape1 dem" "\<lambda>k. dem ! r ! k" "\<bar>a\<bar>"] assms(3) gx
    by auto
  have y1: "0 < r \<and> r < shape0 dem - 1 \<longrightarrow>
      ?gy ! r ! c = fdiv (fsub (dem ! (r + 1) ! c) (dem ! (r - 1) ! c)) (2 * \<bar>e\<bar>)"
    and y2: "r = 0 \<longrightarrow> ?gy ! r ! c = fdiv (fsub (dem ! 1 ! c) (dem ! 0 ! c)) \<bar>e\<bar>"
    and y3: "r = shape0 dem - 1 \<longrightarrow>
      ?gy ! r ! c = fdiv (fsub (dem ! r ! c) (dem ! (r - 1) ! c)) \<bar>e\<bar>"
    using diff_at_cases [of r "shape0 dem" "\<lambda>k. dem ! k ! c" "\<bar>e\<bar>"] assms(2) gy
    by auto
  have s: "\<not> nodata_mask dem nodata ! r ! c \<longrightarrow>
      slope_deg out ! r ! c = slope_of (?gx ! r ! c) (?gy ! r ! c) \<and>
      classes out ! r ! c = digitize (slope_deg out ! r ! c) bins"
    using slope_cell [OF assms out] class_cell [OF assms out] by (simp add: gx gy)
  show ?thesis
    using g out x1 x2 x3 y1 y2 y3 s slope_example_3x3 by blast
qed

theorem gradient_stencil_witness:
  "rectangular [[Fin 0, Fin 0, Fin 0], [Fin 0, Fin 0, Fin 0], [Fin 10, Fin 10, Fin 10]] \<and>
   \<not> nodata_mask [[Fin 0, Fin 0, Fin 0], [Fin 0, Fin 0, Fin 0], [Fin 10, Fin 10, Fin 10]]
       None ! 1 ! 1 \<and>
   (\<exists>gy gx out.
      np_gradient [[Fin 0, Fin 0, Fin 0], [Fin 0, Fin 0, Fin 0], [Fin 10, Fin 10, Fin 10]] 1 1 =
        Inr (gy, gx) \<and>
      compute_slope_and_classes
        [[Fin 0, Fin 0, Fin 0], [Fin 0, Fin 0, Fin 0], [Fin 10, Fin 10, Fin 10]] None 1 (- 1) =
        Inr out \<and>
      gx ! 1 ! 1 = Fin 0 \<and> gy ! 1 ! 1 = Fin 5 \<and>
      slope_deg out ! 1 ! 1 = slope_of (Fin 0) (Fin 5) \<and>
      classes out ! 1 ! 1 = digitize (slope_deg out ! 1 ! 1) bins)"
proof -
  let ?D = "[[Fin 0, Fin 0, Fin 0], [Fin 0, Fin 0, Fin 0], [Fin 10, Fin 10, Fin 10]]"
  have h1: "rectangular ?D" by (simp add: rectangular_def shape1_def)
  have h2: "2 \<le> shape0 ?D" by (simp add: shape0_def)
  have h3: "2 \<le> shape1 ?D" by (simp add: shape1_def)
  have h4: "1 < shape0 ?D" by (simp add: shape0_def)
  have h5: "1 < shape1 ?D" by (simp add: shape1_def)
  have h6: "\<not> nodata_mask ?D None ! 1 ! 1" by (simp add: nodata_mask_def)
  have h7: "(0::nat) < 1 \<and> 1 < shape1 ?D - 1" by (simp add: shape1_def)
  have h8: "(0::nat) < 1 \<and> 1 < shape0 ?D - 1" by (simp add: shape0_def)
  obtain gy gx out where g: "np_gradient ?D \<bar>- 1\<bar> \<bar>1\<bar> = Inr (gy, gx)"
    and out: "compute_slope_and_classes ?D None 1 (- 1) = Inr out"
    and x: "gx ! 1 ! 1 = fdiv (fsub (?D ! 1 ! (1 + 1)) (?D ! 1 ! (1 - 1))) (2 * \<bar>1\<bar>)"
    and y: "gy ! 1 ! 1 = fdiv (fsub (?D ! (1 + 1) ! 1) (?D ! (1 - 1) ! 1)) (2 * \<bar>- 1\<bar>)"
    and s: "slope_deg out ! 1 ! 1 = slope_of (gx ! 1 ! 1) (gy ! 1 ! 1)"
    and k: "classes out ! 1 ! 1 = digitize (slope_deg out ! 1 ! 1) bins"
    using gradient_stencil [OF h1 h2 h3 h4 h5, of "- 1" 1 None] h6 h7 h8 by blast
  have x': "gx ! 1 ! 1 = Fin 0" using x by (simp add: fdiv_def rnd_defs)
  have y': "gy ! 1 ! 1 = Fin 5" using y by (simp add: fdiv_def rnd_defs)
  have g': "np_gradient ?D 1 1 = Inr (gy, gx)" using g by simp
  show ?thesis
    using h1 h6 g' out x' y' s k by (metis (no_types, lifting))
qed

subsection \<open>Range of the slope\<close>

lemma mag_le_refl: "x \<noteq> NaN \<Longrightarrow> mag_le x x"
  by (cases x) auto

lemma nn_le_fsquare: "mag_le x y \<Longrightarrow> nn_le (fsquare x) (fsquare y)"
proof (cases x; cases y)
  fix u v assume xy: "x = Fin u" "y = Fin v" and "mag_le x y"
  then have "\<bar>u\<bar> \<le> \<bar>v\<bar>" by simp
  then have "\<bar>u\<bar> * \<bar>u\<bar> \<le> \<bar>v\<bar> * \<bar>v\<bar>" by (intro mult_mono) simp_all
  then have "u * u \<le> v * v" by (simp add: abs_mult_self_eq)
  then show ?thesis
    using xy by (simp add: nn_le_rnd)
next
  fix u assume "x = Fin u" "y = PInf"
  then show ?thesis
    using nn_le_rnd [of "u * u" "u * u"] by (cases "rnd (u * u)") simp_all
next
  fix u assume "x = Fin u" "y = MInf"
  then show ?thesis
    using nn_le_rnd [of "u * u" "u * u"] by (cases "rnd (u * u)") simp_all
qed auto

lemma nn_le_fadd: "nn_le a c \<Longrightarrow> nn_le b d \<Longrightarrow> nn_le (fadd a b) (fadd c d)"
proof (cases a; cases b; cases c; cases d)
  fix u v w z assume "a = Fin u" "b = Fin v" "c = Fin w" "d = Fin z"
    and "nn_le a c" "nn_le b d"
  then show ?thesis by (simp add: nn_le_rnd)
next
  fix u v w assume "a = Fin u" "b = Fin v" "c = Fin w" "d = PInf"
    and "nn_le a c" "nn_le b d"
  then show ?thesis
    using nn_le_rnd [of "u + v" "u + v"] by (cases "rnd (u + v)") simp_all
next
  fix u v z assume "a = Fin u" "b = Fin v" "c = PInf" "d = Fin z"
    and "nn_le a c" "nn_le b d"
  then show ?thesis
    using nn_le_rnd [of "u + v" "u + v"] by (cases "rnd (u + v)") simp_all
next
  fix u v assume "a = Fin u" "b = Fin v" "c = PInf" "d = PInf"
    and "nn_le a c" "nn_le b d"
  then show ?thesis
    using nn_le_rnd [of "u + v" "u + v"] by (cases "rnd (u + v)") simp_all
qed auto

lemma nn_le_fsqrt: "nn_le x y \<Longrightarrow> nn_le (fsqrt x) (fsqrt y)"
  by (cases x; cases y) auto

lemma rnd_90: "rnd 90 = Fin 90"
  by (simp add: rnd_defs)

lemma nn_le_degrees_farctan:
  assumes "nn_le x y"
  shows "nn_le (degrees (farctan x)) (degrees (farctan y))"
proof (cases x; cases y)
  fix u v assume xy: "x = Fin u" "y = Fin v"
  then have uv: "0 \<le> u" "u \<le> v" using assms by simp_all
  then have "arctan u \<le> arctan v" by (simp add: arctan_le_iff)
  then have "arctan u * 180 / pi \<le> arctan v * 180 / pi"
    by (simp add: divide_right_mono)
  then show ?thesis
    using xy uv(1) by (simp add: nn_le_rnd deg_arctan_nonneg)
next
  fix u assume xy: "x = Fin u" "y = PInf"
  then have "0 \<le> u" using assms by simp
  moreover have "arctan u * 180 / pi \<le> 90" using deg_arctan_less_90 [of u] by simp
  ultimately have "nn_le (rnd (arctan u * 180 / pi)) (rnd 90)"
    by (intro nn_le_rnd deg_arctan_nonneg)
  then show ?thesis using xy by simp
next
  assume "x = PInf" "y = PInf"
  then show ?thesis by (simp add: rnd_90)
qed (use assms in simp_all)

lemma degrees_farctan_range:
  assumes "nn_le x x"
  shows "\<exists>s. degrees (farctan x) = Fin s \<and> 0 \<le> s \<and> s \<le> 90"
proof -
  have "nn_le x PInf" using assms by (cases x) simp_all
  then have "nn_le (degrees (farctan x)) (degrees (farctan PInf))"
    by (rule nn_le_degrees_farctan)
  then have "nn_le (degrees (farctan x)) (Fin 90)" by (simp add: rnd_90)
  then show ?thesis by (cases "degrees (farctan x)") simp_all
qed

lemma nn_le_fle: "nn_le x y \<Longrightarrow> fle x y"
  by (cases x; cases y) simp_all

lemma slope_of_range:
  assumes "gx \<noteq> NaN" "gy \<noteq> NaN"
  shows "\<exists>s. slope_of gx gy = Fin s \<and> 0 \<le> s \<and> s \<le> 90"
proof -
  have "nn_le (fsquare gx) (fsquare gx)" "nn_le (fsquare gy) (fsquare gy)"
    using assms by (simp_all add: nn_le_fsquare mag_le_refl)
  then have "nn_le (fadd (fsquare gx) (fsquare gy)) (fadd (fsquare gx) (fsquare gy))"
    by (rule nn_le_fadd)
  then have "nn_le (fsqrt (fadd (fsquare gx) (fsquare gy))) (fsqrt (fadd (fsquare gx) (fsquare gy)))"
    by (rule nn_le_fsqrt)
  then show ?thesis
    unfolding slope_of_def by (rule degrees_farctan_range)
qed

lemma slope_of_mono:
  assumes "mag_le gx1 gx2" "mag_le gy1 gy2"
  shows "fle (slope_of gx1 gy1) (slope_of gx2 gy2)"
proof -
  have "nn_le (fadd (fsquare gx1) (fsquare gy1)) (fadd (fsquare gx2) (fsquare gy2))"
    using assms by (intro nn_le_fadd nn_le_fsquare)
  then have "nn_le (fsqrt (fadd (fsquare gx1) (fsquare gy1)))
                   (fsqrt (fadd (fsquare gx2) (fsquare gy2)))"
    by (rule nn_le_fsqrt)
  then have "nn_le (slope_of gx1 gy1) (slope_of gx2 gy2)"
    unfolding slope_of_def by (rule nn_le_degrees_farctan)
  then show ?thesis by (rule nn_le_fle)
qed

lemma fsub_finite: "isfinite x \<Longrightarrow> isfinite y \<Longrightarrow> fsub x y \<noteq> NaN"
  by (cases x; cases y) (simp_all add: rnd_not_nan)

lemma fdiv_not_nan:
  assumes "x \<noteq> NaN" "rnd d \<noteq> Fin 0" "isfinite (rnd d)"
  shows "fdiv x d \<noteq> NaN"
proof -
  obtain d' where d': "rnd d = Fin d'" "d' \<noteq> 0"
    using assms(2,3) by (cases "rnd d") auto
  show ?thesis
    using assms(1) d' by (cases x) (simp_all add: fdiv_def rnd_not_nan)
qed

lemma spacing_doubled:
  assumes "rnd \<bar>d\<bar> \<noteq> Fin 0" "isfinite (rnd (2 * \<bar>d\<bar>))"
  shows "rnd (2 * \<bar>d\<bar>) \<noteq> Fin 0" and "isfinite (rnd \<bar>d\<bar>)"
  using assms by (simp_all add: rnd_eq_0_iff isfinite_rnd_iff)

lemma diff_at_not_nan:
  assumes "\<forall>k<n. isfinite (f k)" "2 \<le> n" "i < n"
    and "rnd \<bar>d\<bar> \<noteq> Fin 0" "isfinite (rnd (2 * \<bar>d\<bar>))"
  shows "diff_at f n \<bar>d\<bar> i \<noteq> NaN"
proof -
  have "isfinite (f (n - 1))" "isfinite (f (n - 2))" "isfinite (f 0)" "isfinite (f 1)"
    using assms(1,2) by simp_all
  moreover have "i \<noteq> n - 1 \<Longrightarrow> isfinite (f (i + 1))"
    using assms(1,3) by (simp add: less_diff_conv2 nat_neq_iff)
  moreover have "isfinite (f (i - 1))" using assms(1,3) by simp
  ultimately show ?thesis
    using assms(4,5) spacing_doubled [OF assms(4,5)]
    by (simp add: diff_at_def fsub_finite fdiv_not_nan)
qed

lemma float32_value_2_100: "float32_value 1267650600228229401496703205376"
  unfolding float32_value_def by (rule exI [of _ 1], rule exI [of _ 249]) simp

lemma float32_value_small: "float32_value 0" "float32_value 1" "float32_value 7" "float32_value 100"
  using float32_value_int [of 0] float32_value_int [of 1] float32_value_int [of 7]
    float32_value_int [of 100]
  by simp_all

text \<open>
  Two float32 arrays of finite elevations at positive finite spacings, every cell valid.
  With the elevations 0 and \<open>2^100\<close> and the spacings 1, the column gradient is \<open>2^100\<close>;
  its square \<open>2^200\<close> overflows float32 to infinity, whose arctangent is \<open>\<pi>/2\<close>: the slope
  is exactly 90. With the elevation 100 everywhere and the column spacing \<open>2^-200\<close>, the
  spacing is zero as a float32, the column gradient is \<open>0 / 0\<close> and the slope is NaN.
\<close>

theorem slope_90_counterexample:
  "compute_slope_and_classes
     [[Fin 0, Fin 1267650600228229401496703205376],
      [Fin 0, Fin 1267650600228229401496703205376]] None 1 1 =
   Inr \<lparr>slope_deg = [[Fin 90, Fin 90], [Fin 90, Fin 90]], classes = [[4, 4], [4, 4]]\<rparr> \<and>
   \<not> flt (Fin 90) (Fin 90) \<and>
   compute_slope_and_classes [[Fin 100, Fin 100], [Fin 100, Fin 100]] None (1 / 2 ^ 200) 1 =
   Inr \<lparr>slope_deg = [[NaN, NaN], [NaN, NaN]], classes = [[4, 4], [4, 4]]\<rparr> \<and>
   finite32 (Fin 0) \<and> finite32 (Fin 1267650600228229401496703205376) \<and> finite32 (Fin 100)"
  by (simp add: eval_defs float32_value_2_100 float32_value_small)

text \<open>
  C6, as the code has it. For an array of finite float32 elevations and spacings that are
  finite and nonzero as float32 values, also when doubled, the slope at every valid cell
  is a number in the closed interval from 0 to 90 degrees.
\<close>

theorem slope_range_closed:
  assumes "rectangular dem" "2 \<le> shape0 dem" "2 \<le> shape1 dem"
    and "\<forall>r<shape0 dem. \<forall>c<shape1 dem. finite32 (dem ! r ! c)"
    and "rnd \<bar>a\<bar> \<noteq> Fin 0" "isfinite (rnd (2 * \<bar>a\<bar>))"
    and "rnd \<bar>e\<bar> \<noteq> Fin 0" "isfinite (rnd (2 * \<bar>e\<bar>))"
    and "r < shape0 dem" "c < shape1 dem"
    and "\<not> nodata_mask dem nodata ! r ! c"
  shows "\<exists>out s.
           compute_slope_and_classes dem nodata a e = Inr out \<and>
           slope_deg out ! r ! c = Fin s \<and> 0 \<le> s \<and> s \<le> 90"
proof -
  obtain out where out: "compute_slope_and_classes dem nodata a e = Inr out"
    using compute_Inr [OF assms(2,3)] by blast
  have fin: "\<forall>r<shape0 dem. \<forall>c<shape1 dem. isfinite (dem ! r ! c)"
    using assms(4) by (simp add: finite32_isfinite)
  have x: "diff_at (\<lambda>k. dem ! r ! k) (shape1 dem) \<bar>a\<bar> c \<noteq> NaN"
    using assms(3,5,6,9,10) fin by (intro diff_at_not_nan) simp_all
  have y: "diff_at (\<lambda>k. dem ! k ! c) (shape0 dem) \<bar>e\<bar> r \<noteq> NaN"
    using assms(2,7,8,9,10) fin by (intro diff_at_not_nan) simp_all
  have s: "slope_deg out ! r ! c =
      slope_of (diff_at (\<lambda>k. dem ! r ! k) (shape1 dem) \<bar>a\<bar> c)
               (diff_at (\<lambda>k. dem ! k ! c) (shape0 dem) \<bar>e\<bar> r)"
    using slope_cell [OF assms(1,2,3,9,10) out] assms(11) by simp
  show ?thesis
    using out s slope_of_range [OF x y] by auto
qed

theorem slope_range_closed_witness:
  "rectangular [[Fin 0, Fin 1], [Fin 0, Fin 1]] \<and>
   list_all (list_all finite32) [[Fin 0, Fin 1], [Fin 0, Fin 1]] \<and>
   rnd \<bar>1\<bar> \<noteq> Fin 0 \<and> isfinite (rnd (2 * \<bar>1\<bar>)) \<and>
   rnd \<bar>- 1\<bar> \<noteq> Fin 0 \<and> isfinite (rnd (2 * \<bar>- 1\<bar>)) \<and>
   \<not> nodata_mask [[Fin 0, Fin 1], [Fin 0, Fin 1]] None ! 0 ! 0 \<and>
   (\<exists>out s. compute_slope_and_classes [[Fin 0, Fin 1], [Fin 0, Fin 1]] None 1 (- 1) = Inr out \<and>
      slope_deg out ! 0 ! 0 = Fin s \<and> 0 \<le> s \<and> s \<le> 90)"
proof -
  let ?D = "[[Fin 0, Fin 1], [Fin 0, Fin 1]]"
  have h1: "rectangular ?D" by (simp add: rectangular_def shape1_def)
  have h2: "2 \<le> shape0 ?D" by (simp add: shape0_def)
  have h3: "2 \<le> shape1 ?D" by (simp add: shape1_def)
  have h4: "\<forall>r<shape0 ?D. \<forall>c<shape1 ?D. finite32 (?D ! r ! c)"
    by (simp add: shape0_def shape1_def less_Suc_eq numeral_2_eq_2 float32_value_small)
  have h4': "list_all (list_all finite32) ?D"
    by (simp add: float32_value_small)
  have h5: "rnd \<bar>1\<bar> \<noteq> Fin 0" "isfinite (rnd (2 * \<bar>1\<bar>))"
    "rnd \<bar>- 1\<bar> \<noteq> Fin 0" "isfinite (rnd (2 * \<bar>- 1\<bar>))"
    by (simp_all add: rnd_defs)
  have h7: "0 < shape0 ?D" by (simp add: shape0_def)
  have h8: "0 < shape1 ?D" by (simp add: shape1_def)
  have h9: "\<not> nodata_mask ?D None ! 0 ! 0" by (simp add: nodata_mask_def)
  show ?thesis
    using slope_range_closed [OF h1 h2 h3 h4 h5 h7 h8 h9] h1 h4' h5 h9 by auto
qed

subsection \<open>Flat arrays\<close>

lemma fdiv_zero: "rnd d \<noteq> Fin 0 \<Longrightarrow> fdiv (Fin 0) d = Fin 0"
  by (cases "rnd d") (simp_all add: fdiv_def rnd_not_nan rnd_0)

lemma diff_at_const:
  assumes "\<forall>k<n. f k = Fin v" "2 \<le> n" "i < n" "rnd \<bar>d\<bar> \<noteq> Fin 0"
  shows "diff_at f n \<bar>d\<bar> i = Fin 0"
proof -
  have "f (n - 1) = Fin v" "f (n - 2) = Fin v" "f 0 = Fin v" "f 1 = Fin v"
    using assms(1,2) by simp_all
  moreover have "i \<noteq> n - 1 \<Longrightarrow> f (i + 1) = Fin v"
    using assms(1,3) by (simp add: less_diff_conv2 nat_neq_iff)
  moreover have "f (i - 1) = Fin v" using assms(1,3) by simp
  moreover have "rnd (2 * \<bar>d\<bar>) \<noteq> Fin 0"
    using assms(4) by (simp add: rnd_eq_0_iff)
  ultimately show ?thesis
    using assms(4) by (simp add: diff_at_def rnd_0 fdiv_zero)
qed

text \<open>
  Two flat arrays at positive spacings, every cell valid. The array that holds \<open>+\<infinity>\<close>
  everywhere has the differences \<open>\<infinity> - \<infinity>\<close>, so its slope is NaN and its class is 4.
  The array that holds 7 everywhere, with the column spacing \<open>2^-200\<close>, has the column
  gradient \<open>0 / 0\<close>, since the spacing is zero as a float32: its slope is NaN and its
  class is 4.
\<close>

theorem flat_grid_counterexample:
  "compute_slope_and_classes [[PInf, PInf], [PInf, PInf]] None 1 1 =
   Inr \<lparr>slope_deg = [[NaN, NaN], [NaN, NaN]], classes = [[4, 4], [4, 4]]\<rparr> \<and>
   nodata_mask [[PInf, PInf], [PInf, PInf]] None = [[False, False], [False, False]] \<and>
   compute_slope_and_classes [[Fin 7, Fin 7], [Fin 7, Fin 7]] None (1 / 2 ^ 200) 1 =
   Inr \<lparr>slope_deg = [[NaN, NaN], [NaN, NaN]], classes = [[4, 4], [4, 4]]\<rparr> \<and>
   nodata_mask [[Fin 7, Fin 7], [Fin 7, Fin 7]] None = [[False, False], [False, False]] \<and>
   finite32 (Fin 7)"
  by (simp add: eval_defs float32_value_small)

text \<open>
  C7, as the code has it. On an array whose cells all hold the same finite float32
  elevation, with spacings that are nonzero as float32 values, every valid cell has slope 0
  and class 0.
\<close>

theorem flat_grid_slope_zero:
  assumes "rectangular dem" "2 \<le> shape0 dem" "2 \<le> shape1 dem"
    and "\<forall>r<shape0 dem. \<forall>c<shape1 dem. dem ! r ! c = Fin v"
    and "rnd \<bar>a\<bar> \<noteq> Fin 0" "rnd \<bar>e\<bar> \<noteq> Fin 0"
    and "r < shape0 dem" "c < shape1 dem"
    and "\<not> nodata_mask dem nodata ! r ! c"
    and "float32_value v"
  shows "\<exists>out. compute_slope_and_classes dem nodata a e = Inr out \<and>
           slope_deg out ! r ! c = Fin 0 \<and> classes out ! r ! c = 0"
proof -
  obtain out where out: "compute_slope_and_classes dem nodata a e = Inr out"
    using compute_Inr [OF assms(2,3)] by blast
  have x: "diff_at (\<lambda>k. dem ! r ! k) (shape1 dem) \<bar>a\<bar> c = Fin 0"
    using assms(3,4,5,7,8) by (intro diff_at_const [where v = v]) simp_all
  have y: "diff_at (\<lambda>k. dem ! k ! c) (shape0 dem) \<bar>e\<bar> r = Fin 0"
    using assms(2,4,6,7,8) by (intro diff_at_const [where v = v]) simp_all
  have s: "slope_deg out ! r ! c = Fin 0"
    using slope_cell [OF assms(1,2,3,7,8) out] assms(9) by (simp add: x y slope_of_zero)
  have "classes out ! r ! c = 0"
    using class_cell [OF assms(1,2,3,7,8) out] assms(9) by (simp add: s digitize_bins_Fin)
  then show ?thesis using out s by blast
qed

theorem flat_grid_slope_zero_witness:
  "rectangular [[Fin 7, Fin 7, Fin 7], [Fin 7, Fin 7, Fin 7]] \<and>
   list_all (list_all (\<lambda>x. x = Fin 7)) [[Fin 7, Fin 7, Fin 7], [Fin 7, Fin 7, Fin 7]] \<and>
   float32_value 7 \<and> rnd \<bar>30\<bar> \<noteq> Fin 0 \<and> rnd \<bar>- 30\<bar> \<noteq> Fin 0 \<and>
   \<not> nodata_mask [[Fin 7, Fin 7, Fin 7], [Fin 7, Fin 7, Fin 7]] (Some (Fin (- 9999))) ! 1 ! 2 \<and>
   (\<exists>out. compute_slope_and_classes [[Fin 7, Fin 7, Fin 7], [Fin 7, Fin 7, Fin 7]]
             (Some (Fin (- 9999))) 30 (- 30) = Inr out \<and>
      slope_deg out ! 1 ! 2 = Fin 0 \<and> classes out ! 1 ! 2 = 0)"
proof -
  let ?D = "[[Fin 7, Fin 7, Fin 7], [Fin 7, Fin 7, Fin 7]]"
  have h1: "rectangular ?D" by (simp add: rectangular_def shape1_def)
  have h2: "2 \<le> shape0 ?D" by (simp add: shape0_def)
  have h3: "2 \<le> shape1 ?D" by (simp add: shape1_def)
  have h4: "\<forall>r<shape0 ?D. \<forall>c<shape1 ?D. ?D ! r ! c = Fin 7"
    by (simp add: shape0_def shape1_def less_Suc_eq numeral_2_eq_2 numeral_3_eq_3)
  have h5: "rnd \<bar>30\<bar> \<noteq> Fin 0" "rnd \<bar>- 30\<bar> \<noteq> Fin 0"
    by (simp_all add: rnd_defs)
  have h7: "1 < shape0 ?D" by (simp add: shape0_def)
  have h8: "2 < shape1 ?D" by (simp add: shape1_def)
  have h9: "\<not> nodata_mask ?D (Some (Fin (- 9999))) ! 1 ! 2" by (simp add: nodata_mask_def)
  have h10: "float32_value 7" by (rule float32_value_small)
  show ?thesis
    using flat_grid_slope_zero [OF h1 h2 h3 h4 h5 h7 h8 h9 h10] h1 h5 h9 h10 by auto
qed

subsection \<open>Valid cells next to masked cells\<close>

lemma feq_eq: "feq x v \<Longrightarrow> x = v"
  by (cases x; cases v) simp_all

lemma leak_example:
  assumes "0 \<le> s" "(100 + s) * (100 + s) \<le> FLT_MAX"
  shows "compute_slope_and_classes [[Fin (- s), Fin 100], [Fin 100, Fin 100]]
           (Some (Fin (- s))) 1 (- 1) =
         Inr \<lparr>slope_deg = [[NaN, Fin (arctan (100 + s) * 180 / pi)],
                            [Fin (arctan (100 + s) * 180 / pi), Fin 0]],
              classes = [[0, 4], [4, 0]]\<rparr>"
proof -
  have r: "rnd (100 + s) = Fin (100 + s)"
  proof -
    have "1 * (100 + s) \<le> (100 + s) * (100 + s)"
      using assms(1) by (intro mult_right_mono) simp_all
    then have "100 + s \<le> FLT_MAX" using assms(2) by simp
    then have "FLT_TINY < \<bar>100 + s\<bar>" "\<bar>100 + s\<bar> \<le> FLT_MAX"
      using assms(1) FLT_TINY_less_1 by linarith+
    then show ?thesis by (rule rnd_exact)
  qed
  have s1: "slope_of (Fin (100 + s)) (Fin 0) = Fin (arctan (100 + s) * 180 / pi)"
    and s2: "slope_of (Fin 0) (Fin (100 + s)) = Fin (arctan (100 + s) * 180 / pi)"
    using slope_of_axis [of "100 + s"] assms by simp_all
  have s0: "slope_of (Fin 0) (Fin 0) = Fin 0"
    by (rule slope_of_zero)
  have c1: "digitize (Fin (arctan (100 + s) * 180 / pi)) bins = 4"
    using deg_arctan_ge_45 [of "100 + s"] assms(1) by (simp add: digitize_bins_Fin)
  have c0: "digitize (Fin 0) bins = 0" "digitize NaN bins = 4"
    by (simp_all add: digitize_bins)
  have m: "100 \<noteq> - s" using assms(1) by simp
  have z: "rnd 0 = Fin 0" by (rule rnd_0)
  show ?thesis
    using m
    by (simp add: compute_slope_and_classes_def np_gradient_def gradient_axis0_def
        gradient_axis1_def diff_at_def nodata_mask_def mask_assign_def raw_slope_def
        shape0_def shape1_def fdiv_one r z s0 s1 s2 c0 c1)
qed

lemma flat_example:
  "compute_slope_and_classes [[Fin 100, Fin 100], [Fin 100, Fin 100]]
           (Some (Fin (- 9999))) 1 (- 1) =
         Inr \<lparr>slope_deg = [[Fin 0, Fin 0], [Fin 0, Fin 0]], classes = [[0, 0], [0, 0]]\<rparr>"
  by (simp add: eval_defs)

text \<open>
  C10. The mask is applied to the masked cells of the output only. The slope written at a
  valid cell is the slope of the unmasked computation, taken from the stored elevations of
  its neighbours whether they are masked or not: when the east neighbour of a valid cell
  strictly inside a row is masked by the sentinel \<open>v\<close>, that neighbour's slope is NaN
  and the column gradient of the valid cell is the centered difference with \<open>v\<close> itself.
  So the slopes of valid cells depend on what a masked cell stores. On a 2x2 array whose
  cells are 100 except cell (0,0): storing the sentinel \<open>-9999\<close> there (masked) gives the
  adjacent valid cell (0,1) the slope \<open>atan 10099\<close> in degrees, storing the sentinel
  \<open>-32768\<close> there (masked) gives it \<open>atan 32868\<close> in degrees, and storing 100 there
  (valid, with the sentinel \<open>-9999\<close>) gives it 0; the three differ, and the first two
  arrays have the same mask.
\<close>

theorem masked_neighbour_read_raw:
  assumes "rectangular dem" "2 \<le> shape0 dem" "2 \<le> shape1 dem"
    and "r < shape0 dem" "c < shape1 dem"
    and "\<not> nodata_mask dem nodata ! r ! c"
  shows "(\<exists>gy gx out.
            np_gradient dem \<bar>e\<bar> \<bar>a\<bar> = Inr (gy, gx) \<and>
            compute_slope_and_classes dem nodata a e = Inr out \<and>
            slope_deg out ! r ! c = raw_slope gx gy ! r ! c \<and>
            (\<forall>v. nodata = Some v \<and> 0 < c \<and> c + 1 < shape1 dem \<and>
                 nodata_mask dem nodata ! r ! (c + 1) \<longrightarrow>
               slope_deg out ! r ! (c + 1) = NaN \<and>
               gx ! r ! c = fdiv (fsub v (dem ! r ! (c - 1))) (2 * \<bar>a\<bar>))) \<and>
         compute_slope_and_classes [[Fin (- 9999), Fin 100], [Fin 100, Fin 100]]
           (Some (Fin (- 9999))) 1 (- 1) =
           Inr \<lparr>slope_deg = [[NaN, Fin (arctan 10099 * 180 / pi)],
                              [Fin (arctan 10099 * 180 / pi), Fin 0]],
                classes = [[0, 4], [4, 0]]\<rparr> \<and>
         compute_slope_and_classes [[Fin (- 32768), Fin 100], [Fin 100, Fin 100]]
           (Some (Fin (- 32768))) 1 (- 1) =
           Inr \<lparr>slope_deg = [[NaN, Fin (arctan 32868 * 180 / pi)],
                              [Fin (arctan 32868 * 180 / pi), Fin 0]],
                classes = [[0, 4], [4, 0]]\<rparr> \<and>
         compute_slope_and_classes [[Fin 100, Fin 100], [Fin 100, Fin 100]]
           (Some (Fin (- 9999))) 1 (- 1) =
           Inr \<lparr>slope_deg = [[Fin 0, Fin 0], [Fin 0, Fin 0]], classes = [[0, 0], [0, 0]]\<rparr> \<and>
         nodata_mask [[Fin (- 9999), Fin 100], [Fin 100, Fin 100]] (Some (Fin (- 9999))) =
           [[True, False], [False, False]] \<and>
         nodata_mask [[Fin (- 32768), Fin 100], [Fin 100, Fin 100]] (Some (Fin (- 32768))) =
           [[True, False], [False, False]] \<and>
         Fin (arctan 10099 * 180 / pi) \<noteq> Fin (arctan 32868 * 180 / pi) \<and>
         Fin (arctan 10099 * 180 / pi) \<noteq> Fin 0"
proof -
  let ?gy = "gradient_axis0 dem \<bar>e\<bar>" and ?gx = "gradient_axis1 dem \<bar>a\<bar>"
  obtain out where out: "compute_slope_and_classes dem nodata a e = Inr out"
    using compute_Inr [OF assms(2,3)] by blast
  have g: "np_gradient dem \<bar>e\<bar> \<bar>a\<bar> = Inr (?gy, ?gx)"
    using assms(2,3) by (simp add: np_gradient_def)
  have rl: "r < length dem" using assms(4) by (simp add: shape0_def)
  have cl: "length (dem ! r) = shape1 dem" using assms(1) rl by (rule rectangular_nth)
  have raw: "raw_slope ?gx ?gy ! r ! c = slope_of (?gx ! r ! c) (?gy ! r ! c)"
    using assms(4,5) by (simp add: raw_slope_nth gradient_axis0_shape gradient_axis1_shape)
  have s: "slope_deg out ! r ! c = raw_slope ?gx ?gy ! r ! c"
    using slope_cell [OF assms(1-5) out] assms(4-6)
    by (simp add: raw gradient_axis0_nth gradient_axis1_nth)
  have east: "slope_deg out ! r ! (c + 1) = NaN \<and>
        ?gx ! r ! c = fdiv (fsub v (dem ! r ! (c - 1))) (2 * \<bar>a\<bar>)"
    if v: "nodata = Some v \<and> 0 < c \<and> c + 1 < shape1 dem \<and> nodata_mask dem nodata ! r ! (c + 1)"
    for v
  proof
    have nd: "nodata = Some v" and c1: "c + 1 < shape1 dem"
      and m: "nodata_mask dem nodata ! r ! (c + 1)"
      using v by blast+
    show "slope_deg out ! r ! (c + 1) = NaN"
      using slope_cell [OF assms(1-4) c1 out] m by simp
    have "feq (dem ! r ! (c + 1)) v"
      using m c1 rl cl nodata_mask_nth [of r dem "c + 1" nodata] by (simp add: nd)
    then have "dem ! r ! (c + 1) = v" by (rule feq_eq)
    moreover have "?gx ! r ! c = fdiv (fsub (dem ! r ! (c + 1)) (dem ! r ! (c - 1))) (2 * \<bar>a\<bar>)"
      using diff_at_cases [of c "shape1 dem" "\<lambda>k. dem ! r ! k" "\<bar>a\<bar>"] v assms(4,5)
      by (simp add: gradient_axis1_nth less_diff_conv)
    ultimately show "?gx ! r ! c = fdiv (fsub v (dem ! r ! (c - 1))) (2 * \<bar>a\<bar>)"
      by simp
  qed
  have gen: "\<exists>gy gx out.
            np_gradient dem \<bar>e\<bar> \<bar>a\<bar> = Inr (gy, gx) \<and>
            compute_slope_and_classes dem nodata a e = Inr out \<and>
            slope_deg out ! r ! c = raw_slope gx gy ! r ! c \<and>
            (\<forall>v. nodata = Some v \<and> 0 < c \<and> c + 1 < shape1 dem \<and>
                 nodata_mask dem nodata ! r ! (c + 1) \<longrightarrow>
               slope_deg out ! r ! (c + 1) = NaN \<and>
               gx ! r ! c = fdiv (fsub v (dem ! r ! (c - 1))) (2 * \<bar>a\<bar>))"
    using g out s east by blast
  have e1: "compute_slope_and_classes [[Fin (- 9999), Fin 100], [Fin 100, Fin 100]]
           (Some (Fin (- 9999))) 1 (- 1) =
           Inr \<lparr>slope_deg = [[NaN, Fin (arctan 10099 * 180 / pi)],
                              [Fin (arctan 10099 * 180 / pi), Fin 0]],
                classes = [[0, 4], [4, 0]]\<rparr>"
    using leak_example [of 9999] by (simp add: FLT_MAX_def)
  have e2: "compute_slope_and_classes [[Fin (- 32768), Fin 100], [Fin 100, Fin 100]]
           (Some (Fin (- 32768))) 1 (- 1) =
           Inr \<lparr>slope_deg = [[NaN, Fin (arctan 32868 * 180 / pi)],
                              [Fin (arctan 32868 * 180 / pi), Fin 0]],
                classes = [[0, 4], [4, 0]]\<rparr>"
    using leak_example [of 32768] by (simp add: FLT_MAX_def)
  have ne: "Fin (arctan 10099 * 180 / pi) \<noteq> Fin (arctan 32868 * 180 / pi)"
    "Fin (arctan 10099 * 180 / pi) \<noteq> Fin 0"
    using deg_arctan_pos [of 10099] by (simp_all add: arctan_eq_iff)
  have m: "nodata_mask [[Fin (- 9999), Fin 100], [Fin 100, Fin 100]] (Some (Fin (- 9999))) =
           [[True, False], [False, False]]"
    "nodata_mask [[Fin (- 32768), Fin 100], [Fin 100, Fin 100]] (Some (Fin (- 32768))) =
           [[True, False], [False, False]]"
    by (simp_all add: nodata_mask_def)
  show ?thesis
    using gen e1 e2 flat_example m ne by blast
qed

theorem masked_neighbour_read_raw_witness:
  "rectangular [[Fin 100, Fin 100, Fin (- 9999)], [Fin 100, Fin 100, Fin 100]] \<and>
   \<not> nodata_mask [[Fin 100, Fin 100, Fin (- 9999)], [Fin 100, Fin 100, Fin 100]]
       (Some (Fin (- 9999))) ! 0 ! 1 \<and>
   nodata_mask [[Fin 100, Fin 100, Fin (- 9999)], [Fin 100, Fin 100, Fin 100]]
       (Some (Fin (- 9999))) ! 0 ! 2 \<and>
   (\<exists>gy gx out.
      np_gradient [[Fin 100, Fin 100, Fin (- 9999)], [Fin 100, Fin 100, Fin 100]] 1 1 =
        Inr (gy, gx) \<and>
      compute_slope_and_classes [[Fin 100, Fin 100, Fin (- 9999)], [Fin 100, Fin 100, Fin 100]]
        (Some (Fin (- 9999))) 1 (- 1) = Inr out \<and>
      slope_deg out ! 0 ! 1 = raw_slope gx gy ! 0 ! 1 \<and>
      slope_deg out ! 0 ! 2 = NaN \<and>
      gx ! 0 ! 1 = Fin (- 10099 / 2))"
proof -
  let ?D = "[[Fin 100, Fin 100, Fin (- 9999)], [Fin 100, Fin 100, Fin 100]]"
  let ?n = "Some (Fin (- 9999))"
  have h1: "rectangular ?D" by (simp add: rectangular_def shape1_def)
  have h2: "2 \<le> shape0 ?D" by (simp add: shape0_def)
  have h3: "2 \<le> shape1 ?D" by (simp add: shape1_def)
  have h4: "0 < shape0 ?D" by (simp add: shape0_def)
  have h5: "1 < shape1 ?D" by (simp add: shape1_def)
  have h6: "\<not> nodata_mask ?D ?n ! 0 ! 1" by (simp add: nodata_mask_def)
  have h7: "nodata_mask ?D ?n ! 0 ! 2" by (simp add: nodata_mask_def)
  have h8: "?n = Some (Fin (- 9999)) \<and> (0::nat) < 1 \<and> 1 + 1 < shape1 ?D \<and>
      nodata_mask ?D ?n ! 0 ! (1 + 1)"
    by (simp add: shape1_def nodata_mask_def)
  obtain gy gx out where g: "np_gradient ?D \<bar>- 1\<bar> \<bar>1\<bar> = Inr (gy, gx)"
    and out: "compute_slope_and_classes ?D ?n 1 (- 1) = Inr out"
    and s: "slope_deg out ! 0 ! 1 = raw_slope gx gy ! 0 ! 1"
    and e: "slope_deg out ! 0 ! (1 + 1) = NaN \<and>
        gx ! 0 ! 1 = fdiv (fsub (Fin (- 9999)) (?D ! 0 ! (1 - 1))) (2 * \<bar>1\<bar>)"
    using masked_neighbour_read_raw [OF h1 h2 h3 h4 h5 h6, of "- 1" 1] h8 by blast
  have g': "np_gradient ?D 1 1 = Inr (gy, gx)" using g by simp
  have e1: "slope_deg out ! 0 ! 2 = NaN" using e by (simp add: numeral_2_eq_2)
  have e2: "gx ! 0 ! 1 = Fin (- 10099 / 2)" using e by (simp add: fdiv_def rnd_defs)
  show ?thesis
    using h1 h6 h7 g' out s e1 e2 by blast
qed

subsection \<open>Uniform ramps\<close>

lemma ramp_shape0: "shape0 (ramp R C b kr kc) = R"
  by (simp add: ramp_def shape0_def)

lemma ramp_shape1: "0 < R \<Longrightarrow> shape1 (ramp R C b kr kc) = C"
  by (cases R) (simp_all add: ramp_def shape1_def upt_conv_Cons del: upt_Suc)

lemma ramp_rectangular: "0 < R \<Longrightarrow> rectangular (ramp R C b kr kc)"
  unfolding rectangular_def by (simp add: ramp_shape1) (simp add: ramp_def list_all_iff)

lemma ramp_nth:
  "r < R \<Longrightarrow> c < C \<Longrightarrow> ramp R C b kr kc ! r ! c = Fin (b + kr * real r + kc * real c)"
  by (simp add: ramp_def)

lemma mag_le_inf: "x \<noteq> NaN \<Longrightarrow> mag_le x PInf \<and> mag_le x MInf"
  by (cases x) simp_all

lemma mag_le_not_nan: "mag_le x y \<Longrightarrow> x \<noteq> NaN"
  by (cases x) simp_all

lemma mag_le_fdiv:
  assumes "mag_le x y" "rnd d \<noteq> Fin 0" "isfinite (rnd d)"
  shows "mag_le (fdiv x d) (fdiv y d)"
proof -
  obtain d' where d': "rnd d = Fin d'" "d' \<noteq> 0"
    using assms(2,3) by (cases "rnd d") auto
  have nx: "fdiv x d \<noteq> NaN"
    using assms mag_le_not_nan fdiv_not_nan by blast
  show ?thesis
  proof (cases y)
    case NaN
    then show ?thesis using assms(1) by (cases x) simp_all
  next
    case PInf
    then show ?thesis using d' nx mag_le_inf by (simp add: fdiv_def)
  next
    case MInf
    then show ?thesis using d' nx mag_le_inf by (simp add: fdiv_def)
  next
    case (Fin v)
    then obtain u where u: "x = Fin u" "\<bar>u\<bar> \<le> \<bar>v\<bar>"
      using assms(1) by (cases x) simp_all
    then have "\<bar>u / d'\<bar> \<le> \<bar>v / d'\<bar>" by (simp add: divide_right_mono)
    then show ?thesis using Fin u d' by (simp add: fdiv_def mag_le_rnd)
  qed
qed

lemma ramp_gx_interior:
  assumes "r < R" "0 < c" "c < C - 1"
  shows "diff_at (\<lambda>k. ramp R C b kr kc ! r ! k) C dx c = fdiv (rnd (2 * kc)) (2 * dx)"
proof -
  have "real (c - 1) = real c - 1" using assms(2) by (simp add: of_nat_diff)
  then have "(b + kr * real r + kc * real (c + 1)) - (b + kr * real r + kc * real (c - 1)) = 2 * kc"
    by (simp add: algebra_simps)
  moreover have "c + 1 < C" "c - 1 < C" using assms(3) by simp_all
  ultimately show ?thesis
    using assms diff_at_cases [of c C "\<lambda>k. ramp R C b kr kc ! r ! k" dx]
    by (simp add: ramp_nth)
qed

lemma ramp_gy_interior:
  assumes "c < C" "0 < r" "r < R - 1"
  shows "diff_at (\<lambda>k. ramp R C b kr kc ! k ! c) R dy r = fdiv (rnd (2 * kr)) (2 * dy)"
proof -
  have "real (r - 1) = real r - 1" using assms(2) by (simp add: of_nat_diff)
  then have "(b + kr * real (r + 1) + kc * real c) - (b + kr * real (r - 1) + kc * real c) = 2 * kr"
    by (simp add: algebra_simps)
  moreover have "r + 1 < R" "r - 1 < R" using assms(3) by simp_all
  ultimately show ?thesis
    using assms diff_at_cases [of r R "\<lambda>k. ramp R C b kr kc ! k ! c" dy]
    by (simp add: ramp_nth)
qed

lemma ramp_slope_interior:
  assumes "0 < r" "r < R - 1" "0 < c" "c < C - 1"
    and "\<not> nodata_mask (ramp R C b kr kc) nodata ! r ! c"
  shows "\<exists>out. compute_slope_and_classes (ramp R C b kr kc) nodata a e = Inr out \<and>
           slope_deg out ! r ! c =
             slope_of (fdiv (rnd (2 * kc)) (2 * \<bar>a\<bar>)) (fdiv (rnd (2 * kr)) (2 * \<bar>e\<bar>))"
proof -
  let ?D = "ramp R C b kr kc"
  have R: "0 < R" "r < R" "2 \<le> R" and C: "c < C" "2 \<le> C" using assms(1-4) by simp_all
  have sh: "shape0 ?D = R" "shape1 ?D = C" using R by (simp_all add: ramp_shape0 ramp_shape1)
  have rect: "rectangular ?D" using R by (simp add: ramp_rectangular)
  obtain out where out: "compute_slope_and_classes ?D nodata a e = Inr out"
    using compute_Inr [of ?D nodata a e] R C sh by auto
  have "slope_deg out ! r ! c =
      slope_of (diff_at (\<lambda>k. ?D ! r ! k) C \<bar>a\<bar> c) (diff_at (\<lambda>k. ?D ! k ! c) R \<bar>e\<bar> r)"
    using slope_cell [OF rect _ _ _ _ out, of r c] R C sh assms(5) by simp
  then show ?thesis
    using out assms(1-4) R C by (simp add: ramp_gx_interior ramp_gy_interior)
qed

lemma upt_3: "[0..<3] = [0, 1, 2]"
  by (simp add: upt_rec numeral_3_eq_3)

text \<open>
  Two ramps of three rows and three columns that rise from 0 along the rows, by 1 and by 2
  per row, at the column spacing \<open>2^-200\<close> and the row spacing 1; their cells are float32
  values and all are valid. The column spacing is zero as a float32 and the elevation is
  constant along each row, so every column gradient is \<open>0 / 0\<close>: the slope is NaN at every
  cell of both ramps, the interior cell (1,1) included, and NaN is not at least NaN.
\<close>

theorem ramp_monotone_counterexample:
  "ramp 3 3 0 1 0 = [[Fin 0, Fin 0, Fin 0], [Fin 1, Fin 1, Fin 1], [Fin 2, Fin 2, Fin 2]] \<and>
   ramp 3 3 0 2 0 = [[Fin 0, Fin 0, Fin 0], [Fin 2, Fin 2, Fin 2], [Fin 4, Fin 4, Fin 4]] \<and>
   compute_slope_and_classes (ramp 3 3 0 1 0) None (1 / 2 ^ 200) 1 =
     Inr \<lparr>slope_deg = [[NaN, NaN, NaN], [NaN, NaN, NaN], [NaN, NaN, NaN]],
          classes = [[4, 4, 4], [4, 4, 4], [4, 4, 4]]\<rparr> \<and>
   compute_slope_and_classes (ramp 3 3 0 2 0) None (1 / 2 ^ 200) 1 =
     Inr \<lparr>slope_deg = [[NaN, NaN, NaN], [NaN, NaN, NaN], [NaN, NaN, NaN]],
          classes = [[4, 4, 4], [4, 4, 4], [4, 4, 4]]\<rparr> \<and>
   \<not> fle NaN NaN"
  by (simp add: ramp_def upt_3 eval_defs)

text \<open>
  C8, as the code has it. For two uniform ramps of the same shape whose cells are float32
  values, computed with the same spacings that are finite and nonzero as float32 values,
  also when doubled, and whose per-step rises along the rows and along the columns are at
  least as large in magnitude in the second ramp as in the first, the slope at every
  interior cell that is valid in both is at least as large in the second ramp as in the
  first.
\<close>

theorem ramp_slope_monotone:
  assumes "0 < r" "r < R - 1" "0 < c" "c < C - 1"
    and "rnd \<bar>a\<bar> \<noteq> Fin 0" "isfinite (rnd (2 * \<bar>a\<bar>))"
    and "rnd \<bar>e\<bar> \<noteq> Fin 0" "isfinite (rnd (2 * \<bar>e\<bar>))"
    and "\<bar>kr1\<bar> \<le> \<bar>kr2\<bar>" "\<bar>kc1\<bar> \<le> \<bar>kc2\<bar>"
    and "\<forall>r<R. \<forall>c<C. float32_value (b1 + kr1 * real r + kc1 * real c)"
    and "\<forall>r<R. \<forall>c<C. float32_value (b2 + kr2 * real r + kc2 * real c)"
    and "\<not> nodata_mask (ramp R C b1 kr1 kc1) nodata ! r ! c"
    and "\<not> nodata_mask (ramp R C b2 kr2 kc2) nodata ! r ! c"
  shows "\<exists>out1 out2.
           compute_slope_and_classes (ramp R C b1 kr1 kc1) nodata a e = Inr out1 \<and>
           compute_slope_and_classes (ramp R C b2 kr2 kc2) nodata a e = Inr out2 \<and>
           fle (slope_deg out1 ! r ! c) (slope_deg out2 ! r ! c)"
proof -
  obtain out1 where o1: "compute_slope_and_classes (ramp R C b1 kr1 kc1) nodata a e = Inr out1"
    and s1: "slope_deg out1 ! r ! c =
      slope_of (fdiv (rnd (2 * kc1)) (2 * \<bar>a\<bar>)) (fdiv (rnd (2 * kr1)) (2 * \<bar>e\<bar>))"
    using ramp_slope_interior [OF assms(1-4) assms(13)] by blast
  obtain out2 where o2: "compute_slope_and_classes (ramp R C b2 kr2 kc2) nodata a e = Inr out2"
    and s2: "slope_deg out2 ! r ! c =
      slope_of (fdiv (rnd (2 * kc2)) (2 * \<bar>a\<bar>)) (fdiv (rnd (2 * kr2)) (2 * \<bar>e\<bar>))"
    using ramp_slope_interior [OF assms(1-4) assms(14)] by blast
  have x: "mag_le (fdiv (rnd (2 * kc1)) (2 * \<bar>a\<bar>)) (fdiv (rnd (2 * kc2)) (2 * \<bar>a\<bar>))"
    using assms(6,10) spacing_doubled(1) [OF assms(5,6)]
    by (intro mag_le_fdiv mag_le_rnd) (simp_all add: abs_mult)
  have y: "mag_le (fdiv (rnd (2 * kr1)) (2 * \<bar>e\<bar>)) (fdiv (rnd (2 * kr2)) (2 * \<bar>e\<bar>))"
    using assms(8,9) spacing_doubled(1) [OF assms(7,8)]
    by (intro mag_le_fdiv mag_le_rnd) (simp_all add: abs_mult)
  have "fle (slope_deg out1 ! r ! c) (slope_deg out2 ! r ! c)"
    unfolding s1 s2 using x y by (rule slope_of_mono)
  then show ?thesis using o1 o2 by blast
qed

theorem ramp_slope_monotone_witness:
  "ramp 3 3 0 0 1 = [[Fin 0, Fin 1, Fin 2], [Fin 0, Fin 1, Fin 2], [Fin 0, Fin 1, Fin 2]] \<and>
   ramp 3 3 0 0 (- 2) =
     [[Fin 0, Fin (- 2), Fin (- 4)], [Fin 0, Fin (- 2), Fin (- 4)], [Fin 0, Fin (- 2), Fin (- 4)]] \<and>
   list_all (list_all finite32) (ramp 3 3 0 0 1) \<and>
   list_all (list_all finite32) (ramp 3 3 0 0 (- 2)) \<and>
   rnd \<bar>1\<bar> \<noteq> Fin 0 \<and> isfinite (rnd (2 * \<bar>1\<bar>)) \<and>
   rnd \<bar>- 1\<bar> \<noteq> Fin 0 \<and> isfinite (rnd (2 * \<bar>- 1\<bar>)) \<and>
   (\<exists>out1 out2.
      compute_slope_and_classes (ramp 3 3 0 0 1) None 1 (- 1) = Inr out1 \<and>
      compute_slope_and_classes (ramp 3 3 0 0 (- 2)) None 1 (- 1) = Inr out2 \<and>
      fle (slope_deg out1 ! 1 ! 1) (slope_deg out2 ! 1 ! 1))"
proof -
  have r1: "ramp 3 3 0 0 1 = [[Fin 0, Fin 1, Fin 2], [Fin 0, Fin 1, Fin 2], [Fin 0, Fin 1, Fin 2]]"
    by (simp add: ramp_def upt_3)
  have r2: "ramp 3 3 0 0 (- 2) =
     [[Fin 0, Fin (- 2), Fin (- 4)], [Fin 0, Fin (- 2), Fin (- 4)], [Fin 0, Fin (- 2), Fin (- 4)]]"
    by (simp add: ramp_def upt_3)
  have f: "float32_value 0" "float32_value 1" "float32_value 2" "float32_value (- 2)"
    "float32_value (- 4)"
    using float32_value_int [of 0] float32_value_int [of 1] float32_value_int [of 2]
      float32_value_int [of "- 2"] float32_value_int [of "- 4"]
    by simp_all
  have l1: "list_all (list_all finite32) (ramp 3 3 0 0 1)"
    unfolding r1 by (simp add: f)
  have l2: "list_all (list_all finite32) (ramp 3 3 0 0 (- 2))"
    unfolding r2 by (simp add: f)
  have h1: "(0::nat) < 1" "(1::nat) < 3 - 1" by simp_all
  have h5: "rnd \<bar>1\<bar> \<noteq> Fin 0" "isfinite (rnd (2 * \<bar>1\<bar>))"
    "rnd \<bar>- 1\<bar> \<noteq> Fin 0" "isfinite (rnd (2 * \<bar>- 1\<bar>))"
    by (simp_all add: rnd_defs)
  have h9: "\<bar>0::real\<bar> \<le> \<bar>0\<bar>" "\<bar>1::real\<bar> \<le> \<bar>- 2\<bar>" by simp_all
  have h11: "\<forall>r<3. \<forall>c<3. float32_value (0 + 0 * real r + 1 * real c)"
  proof (intro allI impI)
    fix r c :: nat assume "c < 3"
    then have "float32_value (real_of_int (int c))"
      by (intro float32_value_int) simp
    then show "float32_value (0 + 0 * real r + 1 * real c)" by simp
  qed
  have h12: "\<forall>r<3. \<forall>c<3. float32_value (0 + 0 * real r + (- 2) * real c)"
  proof (intro allI impI)
    fix r c :: nat assume "c < 3"
    then have "float32_value (real_of_int (- 2 * int c))"
      by (intro float32_value_int) simp
    then show "float32_value (0 + 0 * real r + (- 2) * real c)" by simp
  qed
  have h13: "\<not> nodata_mask (ramp 3 3 0 0 1) None ! 1 ! 1"
    unfolding r1 by (simp add: nodata_mask_def)
  have h14: "\<not> nodata_mask (ramp 3 3 0 0 (- 2)) None ! 1 ! 1"
    unfolding r2 by (simp add: nodata_mask_def)
  show ?thesis
    using ramp_slope_monotone [OF h1 h1 h5 h9 h11 h12 h13 h14] r1 r2 l1 l2 h5 by blast
qed

end
